theory Spec2Isabelle
  imports Complex_Main "HOL-Library.Word" "HOL-Library.Sublist"
begin

section \<open>The voice console: a shallow embedding of ConsolePage.tsx\<close>

text \<open>
  The page component keeps its state in React state cells and refs and talks to four
  collaborators: the realtime client, the microphone recorder, the stream player and
  the network (\<^verbatim>\<open>fetch\<close>). Each callback of the page becomes a function from the page
  state to the page state; every call to a collaborator is appended to a trace, in
  program order, so that "what was sent, and in which order" is a property of a list.
  A rejected promise or a thrown error is a value: callbacks return an
  \<open>error option\<close> next to the state they leave behind (a JavaScript exception does not
  undo the assignments made before it).
\<close>

subsection \<open>Strings\<close>

text \<open>
  Protocol tags (event types, toggle values, environment settings) are ASCII and are
  modelled as \<open>string\<close>. Free text that comes from speech transcription is a
  JavaScript string, a sequence of UTF-16 code units.
\<close>

type_synonym jsstring = "16 word list"

text \<open>\<^verbatim>\<open>t.startsWith(p)\<close>\<close>

definition startsWith :: "string \<Rightarrow> string \<Rightarrow> bool" where
  "startsWith t p = prefix p t"

subsection \<open>The event log\<close>

datatype event_source = from_client | from_server

text \<open>
  \<^verbatim>\<open>event: { [key: string]: any }\<close>: the keys the page reads are \<^verbatim>\<open>type\<close>,
  \<^verbatim>\<open>event_id\<close> and, on a completed transcription, \<^verbatim>\<open>transcript\<close>
  (absent on other events, hence an option).
\<close>

record event_payload =
  etype :: string
  event_id :: string
  transcript :: "jsstring option"

record RealtimeEvent =
  time :: string
  source :: event_source
  count :: "nat option"
  event :: event_payload

text \<open>
  The updater handed to \<^verbatim>\<open>setRealtimeEvents\<close>:
  \<^verbatim>\<open>
  (prev) => {
    const lastEvent = prev[prev.length - 1];
    if (lastEvent?.event.type === t) {
      lastEvent.count = (lastEvent.count || 0) + 1;
      return prev.slice(0, -1).concat(lastEvent);
    } else {
      return prev.concat(rtEvent);
    }
  }
  \<close>
  On an empty log \<^verbatim>\<open>prev[-1]\<close> is \<^verbatim>\<open>undefined\<close>, which is not equal to any type tag.
  In \<^verbatim>\<open>lastEvent.count || 0\<close> an absent count reads as 0.
  The updater writes the new count into \<^verbatim>\<open>lastEvent\<close> and returns a new array that
  ends with it; the model is the array returned by one application of the updater.
\<close>

definition appendRealtimeEvent :: "RealtimeEvent list \<Rightarrow> RealtimeEvent \<Rightarrow> RealtimeEvent list" where
  "appendRealtimeEvent prev rtEvent =
     (if prev \<noteq> [] \<and> etype (event (last prev)) = etype (event rtEvent)
      then butlast prev @
             [(last prev)\<lparr>count := Some ((case count (last prev) of None \<Rightarrow> 0 | Some c \<Rightarrow> c) + 1)\<rparr>]
      else prev @ [rtEvent])"

text \<open>The log after a sequence of events, starting from the empty log of a fresh connection.\<close>

definition logEvents :: "RealtimeEvent list \<Rightarrow> RealtimeEvent list" where
  "logEvents evs = foldl appendRealtimeEvent [] evs"

subsection \<open>The memory tool\<close>

text \<open>
  \<^verbatim>\<open>
  async ({ key, value }) => {
    setMemoryKv((kv) => ({ ...kv, [key]: value }));
    return { ok: true };
  }
  \<close>
\<close>

type_synonym memory = "string \<rightharpoonup> string"

record ack =
  ok :: bool

definition set_memory :: "string \<Rightarrow> string \<Rightarrow> memory \<Rightarrow> ack \<times> memory" where
  "set_memory key val kv = (\<lparr>ok = True\<rparr>, kv(key \<mapsto> val))"

subsection \<open>Errors and promises\<close>

text \<open>
  The errors the page can raise: the guard \<^verbatim>\<open>if (!client) throw new Error(...)\<close>, the
  guard \<^verbatim>\<open>if (!response.ok) throw new Error(`HTTP error! status: ...`)\<close>, and the
  rejections of the platform calls it awaits without a handler: \<^verbatim>\<open>fetch\<close> (network
  failure), \<^verbatim>\<open>encodeURIComponent\<close> (a string with an unpaired surrogate),
  \<^verbatim>\<open>response.json()\<close> (a body that is not JSON) and a property read on
  \<^verbatim>\<open>undefined\<close> or \<^verbatim>\<open>null\<close>. The file contains no \<^verbatim>\<open>try\<close>, no \<^verbatim>\<open>catch\<close> and no
  \<^verbatim>\<open>.catch(...)\<close>: an error raised in a callback leaves the callback.
\<close>

datatype error =
    NotInitialized
  | HttpError nat
  | NetworkError
  | URIError
  | SyntaxError
  | TypeError

datatype 'a promise = rejected error | fulfilled 'a

text \<open>
  What \<^verbatim>\<open>response.json()\<close> gives: a rejection when the body is not JSON, the value
  \<^verbatim>\<open>null\<close>, or a value whose properties can be read (a property that is missing, or
  read on a number, string, boolean or array, is \<^verbatim>\<open>undefined\<close>: an absent field).
\<close>

datatype 'a parsed = NotJson | JsonNull | Json 'a

text \<open>What the page reads of a \<^verbatim>\<open>fetch\<close> response: \<^verbatim>\<open>ok\<close>, \<^verbatim>\<open>status\<close> and the body.\<close>

record 'a Response =
  response_ok :: bool
  status :: nat
  json :: "'a parsed"

subsection \<open>Avatar state and its delayed transition\<close>

datatype AvatarState = idle | think | talk

text \<open>
  \<^verbatim>\<open>window.setTimeout(() => setAvatarState(s), holdMs)\<close> puts an entry into the window's
  table of pending timeouts and returns its handle, a positive integer;
  \<^verbatim>\<open>window.clearTimeout(h)\<close> removes the entry with that handle. The table is the
  association list \<open>timeouts\<close>, the last handle handed out is \<open>lastHandle\<close>.
\<close>

record pending =
  target :: AvatarState
  holdMs :: int

subsection \<open>Collaborators\<close>

text \<open>The options object handed to \<^verbatim>\<open>new RealtimeClient(...)\<close>; an absent key is \<open>None\<close>.\<close>

record client_options =
  url :: "string option"
  apiKey :: "string option"
  dangerouslyAllowAPIKeyInBrowser :: "bool option"

text \<open>
  What the page reads and writes of the realtime client: its input audio buffer (an
  \<^verbatim>\<open>Int16Array\<close>), the turn-detection type of its session configuration
  (\<^verbatim>\<open>getTurnDetectionType()\<close>: \<^verbatim>\<open>null\<close> or \<^verbatim>\<open>'server_vad'\<close>) and whether it is
  connected (\<^verbatim>\<open>isConnected()\<close>).
\<close>

record RealtimeClient =
  options :: client_options
  inputAudioBuffer :: "16 word list"
  turn_detection :: "string option"
  connected :: bool

definition byteLength :: "16 word list \<Rightarrow> nat" where
  "byteLength a = 2 * length a"

text \<open>\<^verbatim>\<open>wavRecorder.getStatus()\<close>\<close>

datatype recorder_status = ended | paused | recording

text \<open>
  The result of \<^verbatim>\<open>wavStreamPlayer.interrupt()\<close>: \<^verbatim>\<open>null\<close>, or an object whose
  \<^verbatim>\<open>trackId\<close> may be \<^verbatim>\<open>null\<close>.
\<close>

record TrackSampleOffset =
  trackId :: "string option"
  offset :: nat

record reading =
  reading_value :: real
  units :: string

record Coordinates =
  lat :: real
  lng :: real
  location :: "string option"
  temperature :: "reading option"
  wind_speed :: "reading option"

text \<open>
  The forecast body as the weather tool reads it: \<^verbatim>\<open>json.current\<close> and
  \<^verbatim>\<open>json.current_units\<close> may be missing (the service answers a bad request with
  \<^verbatim>\<open>{error: true, reason: ...}\<close>); their fields are typed by the casts
  \<^verbatim>\<open>as number\<close> and \<^verbatim>\<open>as string\<close>.
\<close>

record forecast_current =
  temperature_2m :: real
  wind_speed_10m :: real

record forecast_units =
  temperature_2m_units :: string
  wind_speed_10m_units :: string

record forecast =
  current :: "forecast_current option"
  current_units :: "forecast_units option"

text \<open>The body of \<^verbatim>\<open>/api/context\<close>: the page reads \<^verbatim>\<open>data.message\<close>.\<close>

record context_data =
  message :: "jsstring option"

text \<open>
  What a function-call output item carries: the value a tool handler resolved to, or
  the error it was rejected with.
\<close>

datatype tool_output = Output_ack ack | Output_forecast forecast | Output_error error

text \<open>
  Every call made to a collaborator, as an entry of the trace. A request to the
  retrieval endpoint is recorded with its URL, a request to the forecast service with
  the two coordinates its URL is built from.
\<close>

datatype call =
    Recorder_pause
  | Recorder_record
  | Player_interrupt
  | Client_updateSession_turn_detection "string option"
  | Realtime_send string
  | Conversation_queueInputAudio "16 word list"
  | Client_cancelResponse string nat
  | Client_sendUserMessageContent "jsstring option"
  | Client_createResponse
  | Fetch_context string
  | Fetch_forecast real real
  | Function_call_output tool_output

subsection \<open>The page state\<close>

record page =
  clientRef :: "RealtimeClient option"
  avatarState :: AvatarState
  avatarTimeoutRef :: "nat option"
  timeouts :: "(nat \<times> pending) list"
  lastHandle :: nat
  realtimeEvents :: "RealtimeEvent list"
  canPushToTalk :: bool
  isRecording :: bool
  memoryKv :: memory
  coords :: "Coordinates option"
  marker :: "Coordinates option"
  wavRecorder :: recorder_status
  wavStreamPlayer :: "TrackSampleOffset option"
  calls :: "call list"

definition call :: "call \<Rightarrow> page \<Rightarrow> page" where
  "call c st = st\<lparr>calls := calls st @ [c]\<rparr>"

subsection \<open>Timers and \<^verbatim>\<open>setAvatarStateSafely\<close>\<close>

definition clearTimeout :: "nat \<Rightarrow> page \<Rightarrow> page" where
  "clearTimeout h st = st\<lparr>timeouts := filter (\<lambda>p. fst p \<noteq> h) (timeouts st)\<rparr>"

definition setTimeout :: "AvatarState \<Rightarrow> int \<Rightarrow> page \<Rightarrow> nat \<times> page" where
  "setTimeout s ms st =
     (let h = Suc (lastHandle st)
      in (h, st\<lparr>timeouts := timeouts st @ [(h, \<lparr>target = s, holdMs = ms\<rparr>)], lastHandle := h\<rparr>))"

text \<open>
  A pending timeout fires: its callback \<^verbatim>\<open>() => setAvatarState(s)\<close> runs and the entry
  leaves the table. The callback does not reset \<^verbatim>\<open>avatarTimeoutRef.current\<close>.
\<close>

definition fire :: "nat \<Rightarrow> page \<Rightarrow> page" where
  "fire h st =
     (case map_of (timeouts st) h of
        None \<Rightarrow> st
      | Some p \<Rightarrow> (clearTimeout h st)\<lparr>avatarState := target p\<rparr>)"

text \<open>
  \<^verbatim>\<open>
  const setAvatarStateSafely = (s: AvatarState, holdMs = 0) => {
    if (avatarTimeoutRef.current) {
      window.clearTimeout(avatarTimeoutRef.current);
      avatarTimeoutRef.current = null;
    }
    if (holdMs > 0) {
      avatarTimeoutRef.current = window.setTimeout(() => setAvatarState(s), holdMs);
    } else {
      setAvatarState(s);
    }
  };
  \<close>
  The test \<^verbatim>\<open>if (avatarTimeoutRef.current)\<close> is a truthiness test: \<^verbatim>\<open>null\<close> and 0 fail it.
\<close>

definition setAvatarStateSafely :: "AvatarState \<Rightarrow> int \<Rightarrow> page \<Rightarrow> page" where
  "setAvatarStateSafely s ms st =
     (let st1 = (case avatarTimeoutRef st of
                   None \<Rightarrow> st
                 | Some h \<Rightarrow> if h \<noteq> 0 then (clearTimeout h st)\<lparr>avatarTimeoutRef := None\<rparr> else st)
      in if ms > 0
         then (case setTimeout s ms st1 of (h, st2) \<Rightarrow> st2\<lparr>avatarTimeoutRef := Some h\<rparr>)
         else st1\<lparr>avatarState := s\<rparr>)"

text \<open>
  At most one delayed transition is pending, and it is the one the ref points to.
\<close>

definition single_pending :: "page \<Rightarrow> bool" where
  "single_pending st =
     (case timeouts st of
        [] \<Rightarrow> True
      | [hp] \<Rightarrow> avatarTimeoutRef st = Some (fst hp) \<and> fst hp \<noteq> 0
      | _ \<Rightarrow> False)"

subsection \<open>Recorder and player\<close>

text \<open>
  Modelled from the spec: the recorder and the stream player (\<^verbatim>\<open>lib/wavtools\<close>) are not
  among the sources. Section 4.3: \<^verbatim>\<open>record\<close> delivers frames while active and
  \<^verbatim>\<open>pause\<close> halts delivery without releasing the device; a recorder whose device was
  never acquired or was released (\<open>ended\<close>) has nothing to deliver or to halt.
  Section 4.4: \<^verbatim>\<open>interrupt\<close> stops the playing track and returns the pair
  (track id, sample offset) of the stop instant; afterwards no track is playing.
\<close>

definition recorder_pause :: "page \<Rightarrow> page" where
  "recorder_pause st =
     call Recorder_pause
       (st\<lparr>wavRecorder := (if wavRecorder st = recording then paused else wavRecorder st)\<rparr>)"

definition recorder_record :: "page \<Rightarrow> page" where
  "recorder_record st =
     call Recorder_record
       (st\<lparr>wavRecorder := (if wavRecorder st = ended then ended else recording)\<rparr>)"

definition interrupt :: "page \<Rightarrow> TrackSampleOffset option \<times> page" where
  "interrupt st =
     (wavStreamPlayer st,
      call Player_interrupt
        (st\<lparr>wavStreamPlayer := map_option (\<lambda>r. r\<lparr>trackId := None\<rparr>) (wavStreamPlayer st)\<rparr>))"

subsection \<open>Interruption\<close>

text \<open>
  \<^verbatim>\<open>
  client.on('conversation.interrupted', async () => {
    const trackSampleOffset = await wavStreamPlayer.interrupt();
    if (trackSampleOffset?.trackId) {
      const { trackId, offset } = trackSampleOffset;
      await client.cancelResponse(trackId, offset);
    }
    setAvatarStateSafely('idle');
  });
  \<close>
  \<^verbatim>\<open>trackSampleOffset?.trackId\<close> is falsy for a \<^verbatim>\<open>null\<close> result, a \<^verbatim>\<open>null\<close> track id
  and the empty string.
\<close>

definition on_conversation_interrupted :: "page \<Rightarrow> page" where
  "on_conversation_interrupted st =
     (case interrupt st of (trackSampleOffset, st1) \<Rightarrow>
        let st2 = (case trackSampleOffset of
                     None \<Rightarrow> st1
                   | Some r \<Rightarrow>
                       (case trackId r of
                          None \<Rightarrow> st1
                        | Some tid \<Rightarrow>
                            if tid \<noteq> [] then call (Client_cancelResponse tid (offset r)) st1
                            else st1))
        in setAvatarStateSafely idle 0 st2)"

subsection \<open>Push to talk\<close>

text \<open>
  \<^verbatim>\<open>
  const startRecording = async () => {
    setIsRecording(true);
    const client = clientRef.current;
    if (!client) throw new Error('RealtimeClient is not initialized');
    const wavRecorder = wavRecorderRef.current;
    const wavStreamPlayer = wavStreamPlayerRef.current;
    const trackSampleOffset = await wavStreamPlayer.interrupt();
    if (trackSampleOffset?.trackId) {
      const { trackId, offset } = trackSampleOffset;
      await client.cancelResponse(trackId, offset);
    }
    await wavRecorder.record((data) => { client.appendInputAudio(data.mono); });
    setAvatarStateSafely('idle');
  };
  \<close>
\<close>

definition startRecording :: "page \<Rightarrow> error option \<times> page" where
  "startRecording st0 =
     (let st = st0\<lparr>isRecording := True\<rparr>
      in case clientRef st of
           None \<Rightarrow> (Some NotInitialized, st)
         | Some c \<Rightarrow>
             (case interrupt st of (trackSampleOffset, st1) \<Rightarrow>
                let st2 = (case trackSampleOffset of
                             None \<Rightarrow> st1
                           | Some r \<Rightarrow>
                               (case trackId r of
                                  None \<Rightarrow> st1
                                | Some tid \<Rightarrow>
                                    if tid \<noteq> [] then call (Client_cancelResponse tid (offset r)) st1
                                    else st1));
                    st3 = recorder_record st2
                in (None, setAvatarStateSafely idle 0 st3)))"

text \<open>
  \<^verbatim>\<open>
  const stopRecording = async () => {
    setIsRecording(false);
    const client = clientRef.current;
    if (!client) throw new Error('RealtimeClient is not initialized');
    const wavRecorder = wavRecorderRef.current;
    await wavRecorder.pause();
    if (client.inputAudioBuffer.byteLength > 0) {
      client.realtime.send('input_audio_buffer.commit', {});
      client.conversation.queueInputAudio(client.inputAudioBuffer);
      client.inputAudioBuffer = new Int16Array(0);
    }
    setAvatarStateSafely('think');
  };
  \<close>
\<close>

definition stopRecording :: "page \<Rightarrow> error option \<times> page" where
  "stopRecording st0 =
     (let st = st0\<lparr>isRecording := False\<rparr>
      in case clientRef st of
           None \<Rightarrow> (Some NotInitialized, st)
         | Some c \<Rightarrow>
             let st1 = recorder_pause st;
                 st2 = (if byteLength (inputAudioBuffer c) > 0
                        then (call (Conversation_queueInputAudio (inputAudioBuffer c))
                                (call (Realtime_send ''input_audio_buffer.commit'') st1))
                               \<lparr>clientRef := Some (c\<lparr>inputAudioBuffer := []\<rparr>)\<rparr>
                        else st1)
             in (None, setAvatarStateSafely think 0 st2))"

subsection \<open>Turn detection\<close>

text \<open>
  \<^verbatim>\<open>
  const changeTurnEndType = async (value: string) => {
    const client = clientRef.current;
    if (!client) throw new Error('RealtimeClient is not initialized');
    const wavRecorder = wavRecorderRef.current;
    if (value === 'none' && wavRecorder.getStatus() === 'recording') {
      await wavRecorder.pause();
    }
    client.updateSession({ turn_detection: value === 'none' ? null : { type: 'server_vad' } });
    if (value === 'server_vad' && client.isConnected()) {
      await wavRecorder.record((data) => client.appendInputAudio(data.mono));
    }
    setCanPushToTalk(value === 'none');
  };
  \<close>
  The toggle calls it with \<^verbatim>\<open>'none'\<close> (manual) or \<^verbatim>\<open>'server_vad'\<close> (automatic).
\<close>

definition changeTurnEndType :: "string \<Rightarrow> page \<Rightarrow> error option \<times> page" where
  "changeTurnEndType v st =
     (case clientRef st of
        None \<Rightarrow> (Some NotInitialized, st)
      | Some c \<Rightarrow>
          let st1 = (if v = ''none'' \<and> wavRecorder st = recording then recorder_pause st else st);
              td = (if v = ''none'' then None else Some ''server_vad'');
              st2 = (call (Client_updateSession_turn_detection td) st1)
                      \<lparr>clientRef := Some (c\<lparr>turn_detection := td\<rparr>)\<rparr>;
              st3 = (if v = ''server_vad'' \<and> connected c then recorder_record st2 else st2)
          in (None, st3\<lparr>canPushToTalk := (v = ''none'')\<rparr>))"

subsection \<open>Context injection\<close>

text \<open>
  \<^verbatim>\<open>String.prototype.trim\<close> removes leading and trailing code units that are WhiteSpace
  or LineTerminator in ECMAScript: TAB, LF, VT, FF, CR, SP, NBSP, U+1680,
  U+2000 to U+200A, U+2028, U+2029, U+202F, U+205F, U+3000 and U+FEFF.
\<close>

definition isWhiteSpace :: "16 word \<Rightarrow> bool" where
  "isWhiteSpace c \<longleftrightarrow>
     List.member [0x9, 0xA, 0xB, 0xC, 0xD, 0x20, 0xA0, 0x1680, 0x2000, 0x2001, 0x2002,
       0x2003, 0x2004, 0x2005, 0x2006, 0x2007, 0x2008, 0x2009, 0x200A, 0x2028, 0x2029,
       0x202F, 0x205F, 0x3000, 0xFEFF] c"

definition trim :: "jsstring \<Rightarrow> jsstring" where
  "trim s = rev (dropWhile isWhiteSpace (rev (dropWhile isWhiteSpace s)))"

text \<open>
  \<^verbatim>\<open>encodeURIComponent\<close>: the string is read as code points (a surrogate pair is one
  code point; an unpaired surrogate raises a URIError), each code point outside
  \<^verbatim>\<open>A-Z a-z 0-9 - _ . ! ~ * ' ( )\<close> is written as its UTF-8 bytes, each byte as
  \<^verbatim>\<open>%\<close> and two upper-case hexadecimal digits.
\<close>

definition isHighSurrogate :: "16 word \<Rightarrow> bool" where
  "isHighSurrogate c \<longleftrightarrow> 0xD800 \<le> c \<and> c \<le> 0xDBFF"

definition isLowSurrogate :: "16 word \<Rightarrow> bool" where
  "isLowSurrogate c \<longleftrightarrow> 0xDC00 \<le> c \<and> c \<le> 0xDFFF"

fun codePoints :: "jsstring \<Rightarrow> nat list option" where
  "codePoints [] = Some []"
| "codePoints [c] = (if isHighSurrogate c \<or> isLowSurrogate c then None else Some [unat c])"
| "codePoints (c # d # ds) =
     (if isLowSurrogate c then None
      else if isHighSurrogate c
      then (if isLowSurrogate d
            then map_option ((#) (0x10000 + (unat c - 0xD800) * 0x400 + (unat d - 0xDC00)))
                   (codePoints ds)
            else None)
      else map_option ((#) (unat c)) (codePoints (d # ds)))"

definition utf8 :: "nat \<Rightarrow> nat list" where
  "utf8 p =
     (if p < 0x80 then [p]
      else if p < 0x800 then [0xC0 + p div 0x40, 0x80 + p mod 0x40]
      else if p < 0x10000
      then [0xE0 + p div 0x1000, 0x80 + p div 0x40 mod 0x40, 0x80 + p mod 0x40]
      else [0xF0 + p div 0x40000, 0x80 + p div 0x1000 mod 0x40, 0x80 + p div 0x40 mod 0x40,
            0x80 + p mod 0x40])"

definition uriUnreserved :: "nat \<Rightarrow> bool" where
  "uriUnreserved p \<longleftrightarrow>
     (0x41 \<le> p \<and> p \<le> 0x5A) \<or> (0x61 \<le> p \<and> p \<le> 0x7A) \<or> (0x30 \<le> p \<and> p \<le> 0x39) \<or>
     List.member [0x2D, 0x5F, 0x2E, 0x21, 0x7E, 0x2A, 0x27, 0x28, 0x29] p"

definition hexDigit :: "nat \<Rightarrow> char" where
  "hexDigit n = ''0123456789ABCDEF'' ! n"

definition percent :: "nat \<Rightarrow> string" where
  "percent b = [CHR ''%'', hexDigit (b div 16), hexDigit (b mod 16)]"

definition encodePoint :: "nat \<Rightarrow> string" where
  "encodePoint p = (if uriUnreserved p then [char_of p] else concat (map percent (utf8 p)))"

definition encodeURIComponent :: "jsstring \<Rightarrow> error + string" where
  "encodeURIComponent s =
     (case codePoints s of
        None \<Rightarrow> Inl URIError
      | Some ps \<Rightarrow> Inr (concat (map encodePoint ps)))"

text \<open>
  \<^verbatim>\<open>
  const injectContext = async (transcript: string) => {
    const client = clientRef.current;
    if (!client) throw new Error('RealtimeClient is not initialized');
    transcript = transcript.trim();
    if (!transcript) return;
    const response = await fetch(`/api/context?query=${encodeURIComponent(transcript)}`);
    if (!response.ok) throw new Error(`HTTP error! status: ${response.status}`);
    const data = await response.json();
    client.sendUserMessageContent([{ type: 'input_text', text: data.message }]);
    if (client.getTurnDetectionType() === null) {
      client.createResponse();
    }
    setAvatarStateSafely('think');
  };
  \<close>
  The network is the parameter \<open>fetch\<close>: the outcome of the request for a URL. The
  caller passes \<^verbatim>\<open>rtEvent.event.transcript\<close>, so an absent transcript reaches
  \<^verbatim>\<open>transcript.trim()\<close> as \<^verbatim>\<open>undefined\<close> and raises a TypeError. The URL is built
  before \<^verbatim>\<open>fetch\<close> is called, so a URIError leaves no request behind. A body that
  is \<^verbatim>\<open>null\<close> raises a TypeError at \<^verbatim>\<open>data.message\<close>.
\<close>

definition injectContext ::
  "(string \<Rightarrow> context_data Response promise) \<Rightarrow> jsstring option \<Rightarrow> page \<Rightarrow> error option \<times> page" where
  "injectContext fetch transcript0 st =
     (case clientRef st of
        None \<Rightarrow> (Some NotInitialized, st)
      | Some c \<Rightarrow>
          (case transcript0 of
             None \<Rightarrow> (Some TypeError, st)
           | Some tr \<Rightarrow>
               let transcript = trim tr
               in if transcript = [] then (None, st)
                  else
                    (case encodeURIComponent transcript of
                       Inl e \<Rightarrow> (Some e, st)
                     | Inr q \<Rightarrow>
                         let url = ''/api/context?query='' @ q;
                             st1 = call (Fetch_context url) st
                         in (case fetch url of
                               rejected e \<Rightarrow> (Some e, st1)
                             | fulfilled response \<Rightarrow>
                                 if \<not> response_ok response
                                 then (Some (HttpError (status response)), st1)
                                 else (case json response of
                                         NotJson \<Rightarrow> (Some SyntaxError, st1)
                                       | JsonNull \<Rightarrow> (Some TypeError, st1)
                                       | Json data \<Rightarrow>
                                           let st2 = call (Client_sendUserMessageContent
                                                            (message data)) st1;
                                               st3 = (if turn_detection c = None
                                                      then call Client_createResponse st2
                                                      else st2)
                                           in (None, setAvatarStateSafely think 0 st3))))))"

subsection \<open>The realtime-event handler\<close>

text \<open>
  \<^verbatim>\<open>
  client.on('realtime.event', async (rtEvent: RealtimeEvent) => {
    const t = rtEvent.event.type;
    if (t === 'input_audio_buffer.commit' || t === 'conversation.item.input_audio_transcription.completed') {
      setAvatarStateSafely('think');
    } else if (t.startsWith('response.') || t.startsWith('conversation.item.output')) {
      setAvatarStateSafely('talk');
    } else if (t === 'response.completed') {
      setAvatarStateSafely('idle', 300);
    }

    if (t === 'conversation.item.input_audio_transcription.completed') {
      await injectContext(rtEvent.event.transcript);
    }

    setRealtimeEvents((prev) => { ... });
  });
  \<close>
  The first part, which drives the avatar, is \<open>avatar_for_event\<close>. The \<^verbatim>\<open>await\<close> has
  no handler around it: when \<^verbatim>\<open>injectContext\<close> raises, the rest of the function does
  not run.
\<close>

definition avatar_for_event :: "string \<Rightarrow> page \<Rightarrow> page" where
  "avatar_for_event t st =
     (if t = ''input_audio_buffer.commit'' \<or>
         t = ''conversation.item.input_audio_transcription.completed''
      then setAvatarStateSafely think 0 st
      else if startsWith t ''response.'' \<or> startsWith t ''conversation.item.output''
      then setAvatarStateSafely talk 0 st
      else if t = ''response.completed''
      then setAvatarStateSafely idle 300 st
      else st)"

definition on_realtime_event ::
  "(string \<Rightarrow> context_data Response promise) \<Rightarrow> RealtimeEvent \<Rightarrow> page \<Rightarrow> error option \<times> page" where
  "on_realtime_event fetch rtEvent st =
     (let t = etype (event rtEvent);
          st1 = avatar_for_event t st
      in case (if t = ''conversation.item.input_audio_transcription.completed''
               then injectContext fetch (transcript (event rtEvent)) st1
               else (None, st1)) of
           (Some e, st2) \<Rightarrow> (Some e, st2)
         | (None, st2) \<Rightarrow>
             (None, st2\<lparr>realtimeEvents := appendRealtimeEvent (realtimeEvents st2) rtEvent\<rparr>))"

subsection \<open>The weather tool\<close>

text \<open>
  \<^verbatim>\<open>
  async ({ lat, lng, location }) => {
    setMarker({ lat, lng, location });
    setCoords({ lat, lng, location });
    const result = await fetch(`https://api.open-meteo.com/v1/forecast?latitude=${lat}&longitude=${lng}&current=temperature_2m,wind_speed_10m`);
    const json = await result.json();
    const temperature = { value: json.current.temperature_2m as number, units: json.current_units.temperature_2m as string };
    const wind_speed = { value: json.current.wind_speed_10m as number, units: json.current_units.wind_speed_10m as string };
    setMarker({ lat, lng, location, temperature, wind_speed });
    return json;
  }
  \<close>
  The handler returns the forecast body itself. A read of \<^verbatim>\<open>json.current.temperature_2m\<close>
  on a \<^verbatim>\<open>null\<close> body or on a body without \<^verbatim>\<open>current\<close> (or without
  \<^verbatim>\<open>current_units\<close>) raises a TypeError. The response's \<^verbatim>\<open>ok\<close> is not read.
  The result is a sum: \<open>Inl\<close> the error the promise is rejected with, \<open>Inr\<close> the value
  it resolves to.
\<close>

definition get_weather ::
  "(real \<Rightarrow> real \<Rightarrow> forecast Response promise) \<Rightarrow> real \<Rightarrow> real \<Rightarrow> string \<Rightarrow> page
     \<Rightarrow> (error + forecast) \<times> page" where
  "get_weather fetch la lo loc st =
     (let place = \<lparr>lat = la, lng = lo, location = Some loc, temperature = None, wind_speed = None\<rparr>;
          st1 = st\<lparr>marker := Some place, coords := Some place\<rparr>;
          st2 = call (Fetch_forecast la lo) st1
      in case fetch la lo of
           rejected e \<Rightarrow> (Inl e, st2)
         | fulfilled result \<Rightarrow>
             (case json result of
                NotJson \<Rightarrow> (Inl SyntaxError, st2)
              | JsonNull \<Rightarrow> (Inl TypeError, st2)
              | Json js \<Rightarrow>
                  (case current js of
                     None \<Rightarrow> (Inl TypeError, st2)
                   | Some cur \<Rightarrow>
                       (case current_units js of
                          None \<Rightarrow> (Inl TypeError, st2)
                        | Some un \<Rightarrow>
                            let temp = \<lparr>reading_value = temperature_2m cur, units = temperature_2m_units un\<rparr>;
                                wind = \<lparr>reading_value = wind_speed_10m cur, units = wind_speed_10m_units un\<rparr>
                            in (Inr js,
                                st2\<lparr>marker := Some (place\<lparr>temperature := Some temp,
                                                              wind_speed := Some wind\<rparr>)\<rparr>)))))"

text \<open>The memory tool on the page state: \<^verbatim>\<open>setMemoryKv\<close> applies the updater.\<close>

definition set_memory_tool :: "string \<Rightarrow> string \<Rightarrow> page \<Rightarrow> ack \<times> page" where
  "set_memory_tool key val st =
     (case set_memory key val (memoryKv st) of (r, kv) \<Rightarrow> (r, st\<lparr>memoryKv := kv\<rparr>))"

subsection \<open>Constructing the client\<close>

text \<open>
  \<^verbatim>\<open>
  const LOCAL_RELAY_SERVER_URL: string = process.env.REACT_APP_LOCAL_RELAY_SERVER_URL || '';
  ...
  useEffect(() => {
    if (apiKey || LOCAL_RELAY_SERVER_URL) {
      clientRef.current = new RealtimeClient(
        LOCAL_RELAY_SERVER_URL ? { url: LOCAL_RELAY_SERVER_URL } : { apiKey, dangerouslyAllowAPIKeyInBrowser: true },
      );
    }
  }, [apiKey]);
  \<close>
  A fresh client has an empty input buffer, no turn detection and is not connected.
\<close>

definition LOCAL_RELAY_SERVER_URL :: "string option \<Rightarrow> string" where
  "LOCAL_RELAY_SERVER_URL env = (case env of None \<Rightarrow> [] | Some u \<Rightarrow> u)"

text \<open>
  The key the page holds:
  \<^verbatim>\<open>
  useEffect(() => {
    const storedApiKey = localStorage.getItem('tmp::voice_api_key') || '';
    setApiKey(storedApiKey);
    if (!LOCAL_RELAY_SERVER_URL && !storedApiKey) {
      const newApiKey = prompt('OpenAI API Key') || '';
      if (newApiKey) {
        localStorage.setItem('tmp::voice_api_key', newApiKey);
        setApiKey(newApiKey);
      }
    }
  }, []);
  \<close>
  \<open>item\<close> is the stored item (\<open>None\<close> when absent), \<open>answer\<close> what the user would
  answer to the prompt (\<open>None\<close> when dismissed). The result records the key state, the
  stored item afterwards and whether the user was prompted.
\<close>

record key_init =
  apiKey_state :: string
  stored_item :: "string option"
  prompted :: bool

definition init_apiKey :: "string \<Rightarrow> string option \<Rightarrow> string option \<Rightarrow> key_init" where
  "init_apiKey relay_url item answer =
     (let storedApiKey = (case item of None \<Rightarrow> [] | Some k \<Rightarrow> k)
      in if relay_url = [] \<and> storedApiKey = []
         then (let newApiKey = (case answer of None \<Rightarrow> [] | Some k \<Rightarrow> k)
               in if newApiKey \<noteq> []
                  then \<lparr>apiKey_state = newApiKey, stored_item = Some newApiKey, prompted = True\<rparr>
                  else \<lparr>apiKey_state = storedApiKey, stored_item = item, prompted = True\<rparr>)
         else \<lparr>apiKey_state = storedApiKey, stored_item = item, prompted = False\<rparr>)"

definition client_options_for :: "string \<Rightarrow> string \<Rightarrow> client_options" where
  "client_options_for relay_url key =
     (if relay_url \<noteq> []
      then \<lparr>url = Some relay_url, apiKey = None, dangerouslyAllowAPIKeyInBrowser = None\<rparr>
      else \<lparr>url = None, apiKey = Some key, dangerouslyAllowAPIKeyInBrowser = Some True\<rparr>)"

definition new_RealtimeClient :: "client_options \<Rightarrow> RealtimeClient" where
  "new_RealtimeClient opts =
     \<lparr>options = opts, inputAudioBuffer = [], turn_detection = None, connected = False\<rparr>"

definition init_client :: "string \<Rightarrow> string \<Rightarrow> page \<Rightarrow> page" where
  "init_client relay_url key st =
     (if key \<noteq> [] \<or> relay_url \<noteq> []
      then st\<lparr>clientRef := Some (new_RealtimeClient (client_options_for relay_url key))\<rparr>
      else st)"

section \<open>The relay\<close>

text \<open>
  \<^verbatim>\<open>
  const OPENAI_API_KEY = process.env.OPENAI_API_KEY;
  const PORT = parseInt(process.env.PORT) || 8081;
  const relay = new RealtimeRelay(OPENAI_API_KEY);
  relay.listen(PORT);
  \<close>
  \<^verbatim>\<open>parseInt\<close> is the language's; its result is taken as given (\<open>None\<close> for NaN).
\<close>

record RealtimeRelay =
  relay_apiKey :: "string option"

definition PORT :: "int option \<Rightarrow> int" where
  "PORT parsed = (case parsed of None \<Rightarrow> 8081 | Some n \<Rightarrow> if n = 0 then 8081 else n)"

definition relay_main :: "string option \<Rightarrow> int option \<Rightarrow> RealtimeRelay \<times> int" where
  "relay_main env_OPENAI_API_KEY parsed_port =
     (\<lparr>relay_apiKey = env_OPENAI_API_KEY\<rparr>, PORT parsed_port)"

text \<open>
  Modelled from the spec: the relay class (\<^verbatim>\<open>relay-server/lib/relay.js\<close>) is not among
  the sources. Sections 4.1 and 6: the relay accepts an unauthenticated inbound
  connection and opens one outbound connection for it, attaching the credential and a
  fixed protocol-version marker on the outbound leg only; from then on it copies frames
  verbatim, inbound to outbound and outbound to inbound. What the relay writes is a
  list of \<open>wire\<close> items, each on one leg.
\<close>

type_synonym frame = "8 word list"

datatype relay_input = Accept | From_client frame | From_upstream frame

datatype wire =
    Open_upstream "string option" string
  | To_upstream frame
  | To_client frame

definition relay_step :: "RealtimeRelay \<Rightarrow> string \<Rightarrow> relay_input \<Rightarrow> wire list" where
  "relay_step relay version i =
     (case i of
        Accept \<Rightarrow> [Open_upstream (relay_apiKey relay) version]
      | From_client f \<Rightarrow> [To_upstream f]
      | From_upstream f \<Rightarrow> [To_client f])"

definition relay_run :: "RealtimeRelay \<Rightarrow> string \<Rightarrow> relay_input list \<Rightarrow> wire list" where
  "relay_run relay version is = concat (map (relay_step relay version) is)"

text \<open>The items written on the inbound (client) leg, and on the outbound leg.\<close>

fun on_client_leg :: "wire \<Rightarrow> bool" where
  "on_client_leg (To_client f) = True"
| "on_client_leg (Open_upstream k v) = False"
| "on_client_leg (To_upstream f) = False"

definition client_leg :: "wire list \<Rightarrow> wire list" where
  "client_leg ws = filter on_client_leg ws"

section \<open>Event consumption\<close>

text \<open>
  Modelled from the spec: the realtime client (its dispatch of inbound events to the
  registered handlers and its dispatch of tool calls) is not among the sources.
  Section 5: one cooperative execution context consumes the inbound events in arrival
  order, and a tool call's result is folded back without stalling the consumption of
  later events. Section 4.2: on a tool invocation the locally registered handler is
  looked up by name and invoked with the parsed arguments, and a function-call output
  is emitted once the handler resolves, with success or with error. Section 7: a tool
  handler failure is emitted as a function-call output carrying an error payload and
  the conversation continues. The two registered tools are \<^verbatim>\<open>set_memory\<close> and
  \<^verbatim>\<open>get_weather\<close>. A handler of the page is an \<^verbatim>\<open>async\<close> function: calling it gives a
  promise and raises nothing in the caller, so a rejected handler is reported (here:
  collected) and the next event is handled on the state the handler left.
\<close>

record network =
  fetch_context :: "string \<Rightarrow> context_data Response promise"
  fetch_forecast :: "real \<Rightarrow> real \<Rightarrow> forecast Response promise"

datatype tool_call = Call_set_memory string string | Call_get_weather real real string

datatype inbound =
    Realtime RealtimeEvent
  | Interrupted
  | Tool tool_call

definition on_tool_call :: "network \<Rightarrow> tool_call \<Rightarrow> page \<Rightarrow> page" where
  "on_tool_call net tc st =
     (case tc of
        Call_set_memory key val \<Rightarrow>
          (case set_memory_tool key val st of
             (r, st1) \<Rightarrow> call (Function_call_output (Output_ack r)) st1)
      | Call_get_weather la lo loc \<Rightarrow>
          (case get_weather (fetch_forecast net) la lo loc st of
             (Inl e, st1) \<Rightarrow> call (Function_call_output (Output_error e)) st1
           | (Inr js, st1) \<Rightarrow> call (Function_call_output (Output_forecast js)) st1))"

definition handle :: "network \<Rightarrow> inbound \<Rightarrow> page \<Rightarrow> error option \<times> page" where
  "handle net i st =
     (case i of
        Realtime e \<Rightarrow> on_realtime_event (fetch_context net) e st
      | Interrupted \<Rightarrow> (None, on_conversation_interrupted st)
      | Tool tc \<Rightarrow> (None, on_tool_call net tc st))"

text \<open>The errors reported while a sequence of inbound events is consumed, and the state after it.\<close>

fun consume :: "network \<Rightarrow> inbound list \<Rightarrow> page \<Rightarrow> error list \<times> page" where
  "consume net [] st = ([], st)"
| "consume net (i # rest) st =
     (case handle net i st of
        (r, st1) \<Rightarrow>
          (case consume net rest st1 of
             (errs, st2) \<Rightarrow> ((case r of None \<Rightarrow> errs | Some e \<Rightarrow> e # errs), st2)))"

section \<open>Concrete states\<close>

text \<open>
  The state of a freshly mounted page (the initial values of its state cells and refs),
  before a client exists: nothing recorded, nothing playing, no call made.
\<close>

definition initial_page :: page where
  "initial_page =
     \<lparr>clientRef = None, avatarState = idle, avatarTimeoutRef = None, timeouts = [],
      lastHandle = 0, realtimeEvents = [], canPushToTalk = True, isRecording = False,
      memoryKv = Map.empty,
      coords = Some \<lparr>lat = 37.775593, lng = -122.418137, location = None,
                      temperature = None, wind_speed = None\<rparr>,
      marker = None, wavRecorder = ended, wavStreamPlayer = None, calls = []\<rparr>"

text \<open>The page once a client has been constructed for a relay and the recorder has begun.\<close>

definition relay_page :: page where
  "relay_page =
     (init_client ''http://localhost:8081'' [] initial_page)\<lparr>wavRecorder := paused\<rparr>"

text \<open>The same page with the client connected, in manual mode.\<close>

definition connected_page :: page where
  "connected_page =
     relay_page\<lparr>clientRef := map_option (\<lambda>c. c\<lparr>connected := True\<rparr>) (clientRef relay_page)\<rparr>"

text \<open>A server event of a given type, and a completed transcription of given text.\<close>

definition server_event :: "string \<Rightarrow> RealtimeEvent" where
  "server_event t =
     \<lparr>time = ''2024-10-01T00:00:00.000Z'', source = from_server, count = None,
      event = \<lparr>etype = t, event_id = ''event_1'', transcript = None\<rparr>\<rparr>"


text \<open>A response is being played: track \<^verbatim>\<open>item_7\<close>, 4800 samples in.\<close>

definition playing_page :: page where
  "playing_page =
     connected_page\<lparr>wavStreamPlayer := Some \<lparr>trackId = Some ''item_7'', offset = 4800\<rparr>,
                    avatarState := talk\<rparr>"

text \<open>Push to talk is held: the recorder is recording and three samples are buffered.\<close>

definition recording_page :: page where
  "recording_page =
     connected_page\<lparr>clientRef := map_option (\<lambda>c. c\<lparr>inputAudioBuffer := [12, 65535, 7]\<rparr>)
                                  (clientRef connected_page),
                    wavRecorder := recording, isRecording := True\<rparr>"

text \<open>Push to talk was pressed a moment ago: the recorder is recording, nothing is buffered yet.\<close>

definition listening_page :: page where
  "listening_page = connected_page\<lparr>wavRecorder := recording, isRecording := True\<rparr>"

text \<open>
  Outcomes of the two network requests: the retrieval endpoint unreachable, answering
  500, and answering with a passage; the forecast service unreachable, and answering
  with a reading.
\<close>

definition network_down :: "string \<Rightarrow> context_data Response promise" where
  "network_down u = rejected NetworkError"

definition context_unavailable :: "string \<Rightarrow> context_data Response promise" where
  "context_unavailable u = fulfilled \<lparr>response_ok = False, status = 500, json = NotJson\<rparr>"

definition context_found :: "string \<Rightarrow> context_data Response promise" where
  "context_found u =
     fulfilled \<lparr>response_ok = True, status = 200,
                json = Json \<lparr>message = Some [0x68, 0x65, 0x6C, 0x6C, 0x6F]\<rparr>\<rparr>"

definition forecast_down :: "real \<Rightarrow> real \<Rightarrow> forecast Response promise" where
  "forecast_down la lo = rejected NetworkError"

definition forecast_sf :: forecast where
  "forecast_sf =
     \<lparr>current = Some \<lparr>temperature_2m = 15.3, wind_speed_10m = 12.6\<rparr>,
      current_units = Some \<lparr>temperature_2m_units = ''C'', wind_speed_10m_units = ''km/h''\<rparr>\<rparr>"

definition forecast_up :: "real \<Rightarrow> real \<Rightarrow> forecast Response promise" where
  "forecast_up la lo = fulfilled \<lparr>response_ok = True, status = 200, json = Json forecast_sf\<rparr>"

text \<open>
  The forecast service refuses the request (a latitude out of range): status 400 and a
  JSON body \<^verbatim>\<open>{error: true, reason: ...}\<close>, which has neither \<^verbatim>\<open>current\<close> nor
  \<^verbatim>\<open>current_units\<close>.
\<close>

definition forecast_refused :: "real \<Rightarrow> real \<Rightarrow> forecast Response promise" where
  "forecast_refused la lo =
     fulfilled \<lparr>response_ok = False, status = 400,
                json = Json \<lparr>current = None, current_units = None\<rparr>\<rparr>"

text \<open>The forecast service answers with a page that is not JSON.\<close>

definition forecast_garbled :: "real \<Rightarrow> real \<Rightarrow> forecast Response promise" where
  "forecast_garbled la lo = fulfilled \<lparr>response_ok = True, status = 200, json = NotJson\<rparr>"

text \<open>Networks: everything down, the services refusing, everything up, the forecast garbled.\<close>

definition net_down :: network where
  "net_down = \<lparr>fetch_context = network_down, fetch_forecast = forecast_down\<rparr>"

definition net_unavailable :: network where
  "net_unavailable = \<lparr>fetch_context = context_unavailable, fetch_forecast = forecast_refused\<rparr>"

definition net_up :: network where
  "net_up = \<lparr>fetch_context = context_found, fetch_forecast = forecast_up\<rparr>"

definition net_garbled :: network where
  "net_garbled = \<lparr>fetch_context = context_found, fetch_forecast = forecast_garbled\<rparr>"

text \<open>A newest log entry that already stands for four events.\<close>

definition counted_event :: RealtimeEvent where
  "counted_event = (server_event ''response.audio.delta'')\<lparr>count := Some 3\<rparr>"

section \<open>Properties\<close>

subsection \<open>Avatar state, timers and whitespace\<close>

lemma setAvatarStateSafely_frame:
  "calls (setAvatarStateSafely s ms st) = calls st"
  "realtimeEvents (setAvatarStateSafely s ms st) = realtimeEvents st"
  "clientRef (setAvatarStateSafely s ms st) = clientRef st"
  "wavRecorder (setAvatarStateSafely s ms st) = wavRecorder st"
  "wavStreamPlayer (setAvatarStateSafely s ms st) = wavStreamPlayer st"
  "isRecording (setAvatarStateSafely s ms st) = isRecording st"
  "canPushToTalk (setAvatarStateSafely s ms st) = canPushToTalk st"
  "memoryKv (setAvatarStateSafely s ms st) = memoryKv st"
  "marker (setAvatarStateSafely s ms st) = marker st"
  "coords (setAvatarStateSafely s ms st) = coords st"
  by (simp_all add: setAvatarStateSafely_def setTimeout_def clearTimeout_def Let_def
        split: option.split)

lemma setAvatarStateSafely_now:
  "ms \<le> 0 \<Longrightarrow> avatarState (setAvatarStateSafely s ms st) = s"
  by (simp add: setAvatarStateSafely_def clearTimeout_def split: option.split)

lemma setAvatarStateSafely_later:
  "0 < ms \<Longrightarrow> avatarState (setAvatarStateSafely s ms st) = avatarState st"
  by (simp add: setAvatarStateSafely_def setTimeout_def clearTimeout_def Let_def split: option.split)

lemma setAvatarStateSafely_supersedes:
  assumes "single_pending st"
  shows "timeouts (setAvatarStateSafely s ms st) =
           (if 0 < ms then [(Suc (lastHandle st), \<lparr>target = s, holdMs = ms\<rparr>)] else [])"
    and "single_pending (setAvatarStateSafely s ms st)"
  using assms
  by (auto simp: single_pending_def setAvatarStateSafely_def setTimeout_def clearTimeout_def Let_def
        split: option.split list.splits)

lemma single_pending_initial: "single_pending initial_page"
  by (simp add: single_pending_def initial_page_def)

lemma fire_single_pending:
  assumes "single_pending st"
  shows "single_pending (fire h st)"
  using assms
  by (auto simp: single_pending_def fire_def clearTimeout_def split: option.split list.splits if_splits)

lemma startsWith_response_completed: "startsWith ''response.completed'' ''response.''"
  by (simp add: startsWith_def)

lemma avatar_for_event_branches:
  "avatar_for_event t st =
     (if t = ''input_audio_buffer.commit'' \<or>
         t = ''conversation.item.input_audio_transcription.completed''
      then setAvatarStateSafely think 0 st
      else if startsWith t ''response.'' \<or> startsWith t ''conversation.item.output''
      then setAvatarStateSafely talk 0 st
      else st)"
  by (auto simp: avatar_for_event_def startsWith_def)

lemma trim_blank:
  assumes "\<forall>c \<in> set tr. isWhiteSpace c"
  shows "trim tr = []"
proof -
  from assms have "dropWhile isWhiteSpace tr = []"
    by simp
  then show ?thesis
    unfolding trim_def by (simp only: rev.simps dropWhile.simps)
qed

lemma trim_not_blank:
  assumes "\<not> (\<forall>c \<in> set tr. isWhiteSpace c)"
  shows "trim tr \<noteq> []"
proof -
  let ?ys = "dropWhile isWhiteSpace tr"
  from assms have ne: "?ys \<noteq> []"
    by simp
  then have "\<not> isWhiteSpace (hd ?ys)"
    by (rule hd_dropWhile)
  moreover from ne have "hd ?ys \<in> set (rev ?ys)"
    by simp
  ultimately have "dropWhile isWhiteSpace (rev ?ys) \<noteq> []"
    by auto
  then show ?thesis
    unfolding trim_def by (simp only: rev_is_Nil_conv not_False_eq_True)
qed

subsection \<open>The concrete states\<close>

lemma clientRef_connected_page:
  "clientRef connected_page =
     Some \<lparr>options = \<lparr>url = Some ''http://localhost:8081'', apiKey = None,
                        dangerouslyAllowAPIKeyInBrowser = None\<rparr>,
           inputAudioBuffer = [], turn_detection = None, connected = True\<rparr>"
  by (simp add: connected_page_def relay_page_def init_client_def new_RealtimeClient_def
        client_options_for_def initial_page_def)

lemma connected_page_fields:
  "calls connected_page = []"
  "wavRecorder connected_page = paused"
  "wavStreamPlayer connected_page = None"
  "avatarState connected_page = idle"
  "avatarTimeoutRef connected_page = None"
  "timeouts connected_page = []"
  "realtimeEvents connected_page = []"
  "canPushToTalk connected_page = True"
  "marker connected_page = None"
  by (simp_all add: connected_page_def relay_page_def init_client_def initial_page_def)

lemma net_fields:
  "fetch_context net_down = network_down"
  "fetch_forecast net_down = forecast_down"
  "fetch_context net_unavailable = context_unavailable"
  "fetch_forecast net_unavailable = forecast_refused"
  "fetch_context net_up = context_found"
  "fetch_forecast net_up = forecast_up"
  "fetch_forecast net_garbled = forecast_garbled"
  by (simp_all add: net_down_def net_unavailable_def net_up_def net_garbled_def)

subsection \<open>Event log\<close>

lemma appendRealtimeEvent_same:
  assumes "prev \<noteq> []" and "etype (event (last prev)) = etype (event e)"
  shows "appendRealtimeEvent prev e =
           butlast prev @
             [(last prev)\<lparr>count := Some (case count (last prev) of None \<Rightarrow> 1 | Some n \<Rightarrow> n + 1)\<rparr>]"
  using assms by (simp add: appendRealtimeEvent_def split: option.split)

lemma appendRealtimeEvent_new:
  assumes "prev = [] \<or> etype (event (last prev)) \<noteq> etype (event e)"
  shows "appendRealtimeEvent prev e = prev @ [e]"
  using assms by (auto simp: appendRealtimeEvent_def)

lemma appendRealtimeEvent_types:
  "map (\<lambda>x. etype (event x)) (appendRealtimeEvent prev e) =
     (if prev \<noteq> [] \<and> etype (event (last prev)) = etype (event e)
      then map (\<lambda>x. etype (event x)) prev
      else map (\<lambda>x. etype (event x)) prev @ [etype (event e)])"
proof (cases "prev \<noteq> [] \<and> etype (event (last prev)) = etype (event e)")
  case True
  then have "map (\<lambda>x. etype (event x)) (appendRealtimeEvent prev e) =
               map (\<lambda>x. etype (event x)) (butlast prev) @ [etype (event (last prev))]"
    by (simp add: appendRealtimeEvent_def)
  also have "\<dots> = map (\<lambda>x. etype (event x)) (butlast prev @ [last prev])"
    by simp
  also have "\<dots> = map (\<lambda>x. etype (event x)) prev"
    using True by simp
  finally show ?thesis using True by simp
next
  case False
  then show ?thesis by (auto simp: appendRealtimeEvent_def)
qed

lemma remdups_adj_snoc:
  "remdups_adj (xs @ [x]) =
     (if xs \<noteq> [] \<and> last xs = x then remdups_adj xs else remdups_adj xs @ [x])"
proof (cases xs rule: rev_cases)
  case Nil
  then show ?thesis by simp
next
  case (snoc ys y)
  then show ?thesis by (simp add: remdups_adj_append_two)
qed

lemma logEvents_types:
  "map (\<lambda>x. etype (event x)) (logEvents evs) = remdups_adj (map (\<lambda>x. etype (event x)) evs)"
proof (induction evs rule: rev_induct)
  case Nil
  show ?case by (simp add: logEvents_def)
next
  case (snoc e evs)
  let ?log = "logEvents evs"
  let ?ty = "\<lambda>x. etype (event x)"
  have step: "logEvents (evs @ [e]) = appendRealtimeEvent ?log e"
    by (simp add: logEvents_def)
  have ne: "?log \<noteq> [] \<longleftrightarrow> evs \<noteq> []"
  proof -
    have "?log = [] \<longleftrightarrow> map ?ty ?log = []" by simp
    also have "\<dots> \<longleftrightarrow> remdups_adj (map ?ty evs) = []" by (simp only: snoc.IH)
    also have "\<dots> \<longleftrightarrow> evs = []" by simp
    finally show ?thesis by simp
  qed
  have lst: "?ty (last ?log) = last (map ?ty evs)" if "evs \<noteq> []"
  proof -
    from that ne have "?log \<noteq> []" by simp
    then have "?ty (last ?log) = last (map ?ty ?log)"
      by (simp add: last_map)
    also have "\<dots> = last (remdups_adj (map ?ty evs))"
      by (simp only: snoc.IH)
    also have "\<dots> = last (map ?ty evs)"
      by simp
    finally show ?thesis .
  qed
  show ?case
  proof (cases "evs = []")
    case True
    then show ?thesis
      by (simp add: logEvents_def appendRealtimeEvent_def)
  next
    case False
    with ne lst have "?log \<noteq> []" and "?ty (last ?log) = last (map ?ty evs)"
      by simp_all
    then show ?thesis
      using False snoc.IH
      by (simp add: step appendRealtimeEvent_types remdups_adj_snoc)
  qed
qed

lemma logEvents_snoc: "logEvents (evs @ [e]) = appendRealtimeEvent (logEvents evs) e"
  by (simp add: logEvents_def)

text \<open>A run of \<open>k + 2\<close> events of one type is one entry, counted \<open>k + 1\<close>.\<close>

lemma logEvents_run:
  assumes "count e = None"
  shows "logEvents (replicate (Suc (Suc k)) e) = [e\<lparr>count := Some (Suc k)\<rparr>]"
proof (induction k)
  case 0
  from assms show ?case
    by (simp add: logEvents_def appendRealtimeEvent_def)
next
  case (Suc k)
  have "replicate (Suc (Suc (Suc k))) e = replicate (Suc (Suc k)) e @ [e]"
    using replicate_append_same [of "Suc (Suc k)" e] by simp
  then have "logEvents (replicate (Suc (Suc (Suc k))) e) =
               appendRealtimeEvent [e\<lparr>count := Some (Suc k)\<rparr>] e"
    using Suc.IH by (simp only: logEvents_snoc)
  then show ?case
    by (simp add: appendRealtimeEvent_def)
qed

lemma injectContext_frame_events:
  "realtimeEvents (snd (injectContext fetch tr st)) = realtimeEvents st"
  by (simp add: injectContext_def call_def Let_def setAvatarStateSafely_frame
        split: option.split promise.split sum.split parsed.split)

lemma avatar_for_event_frame_events:
  "realtimeEvents (avatar_for_event t st) = realtimeEvents st"
  by (simp add: avatar_for_event_def setAvatarStateSafely_frame)

lemma on_realtime_event_logs:
  assumes "on_realtime_event fetch e st = (None, st')"
  shows "realtimeEvents st' = appendRealtimeEvent (realtimeEvents st) e"
proof (cases "etype (event e) = ''conversation.item.input_audio_transcription.completed''")
  case False
  with assms show ?thesis
    by (auto simp: on_realtime_event_def Let_def avatar_for_event_frame_events)
next
  case True
  obtain r st2 where inj: "injectContext fetch (transcript (event e))
      (avatar_for_event (etype (event e)) st) = (r, st2)"
    by (cases "injectContext fetch (transcript (event e)) (avatar_for_event (etype (event e)) st)")
  have "realtimeEvents st2 = realtimeEvents st"
    using injectContext_frame_events [of fetch "transcript (event e)" "avatar_for_event (etype (event e)) st"] inj
    by (simp add: avatar_for_event_frame_events)
  with assms True inj show ?thesis
    by (cases r) (auto simp: on_realtime_event_def Let_def)
qed

text \<open>
  Claim C1. An event whose type equals the type of the newest log entry replaces that
  entry by the same entry with its occurrence count incremented: an entry without a
  count gets count 1, an entry with count \<open>n\<close> gets count \<open>n + 1\<close>; the log keeps its
  length. An event of another type, or the first event, is appended and the log grows by
  exactly one, every earlier entry staying as it was. Over any sequence of events the
  types in the log are the sequence's types with adjacent repetitions collapsed, so
  entries of different types are never merged, and a run of \<open>k + 2\<close> fresh events of one
  type is a single entry with count \<open>k + 1\<close>. Whenever the realtime-event handler
  completes, this is the update it makes to the log.
\<close>

theorem event_log_coalesces_adjacent_same_type:
  "(prev \<noteq> [] \<and> etype (event (last prev)) = etype (event e) \<longrightarrow>
      length (appendRealtimeEvent prev e) = length prev \<and>
      (count (last prev) = None \<longrightarrow>
         appendRealtimeEvent prev e = butlast prev @ [(last prev)\<lparr>count := Some 1\<rparr>]) \<and>
      (\<forall>n. count (last prev) = Some n \<longrightarrow>
         appendRealtimeEvent prev e = butlast prev @ [(last prev)\<lparr>count := Some (n + 1)\<rparr>]))
   \<and> (prev = [] \<or> etype (event (last prev)) \<noteq> etype (event e) \<longrightarrow>
      appendRealtimeEvent prev e = prev @ [e] \<and>
      length (appendRealtimeEvent prev e) = length prev + 1)
   \<and> map (\<lambda>x. etype (event x)) (logEvents evs) = remdups_adj (map (\<lambda>x. etype (event x)) evs)
   \<and> (count e = None \<longrightarrow>
      logEvents (replicate (Suc (Suc k)) e) = [e\<lparr>count := Some (Suc k)\<rparr>])
   \<and> (on_realtime_event fetch e st = (None, st') \<longrightarrow>
      realtimeEvents st' = appendRealtimeEvent (realtimeEvents st) e)"
proof (intro conjI impI allI)
  assume a: "prev \<noteq> [] \<and> etype (event (last prev)) = etype (event e)"
  then show "length (appendRealtimeEvent prev e) = length prev"
    by (simp add: appendRealtimeEvent_same)
  {
    assume "count (last prev) = None"
    with a show "appendRealtimeEvent prev e = butlast prev @ [(last prev)\<lparr>count := Some 1\<rparr>]"
      by (simp add: appendRealtimeEvent_same)
  }
  {
    fix n assume "count (last prev) = Some n"
    with a show "appendRealtimeEvent prev e = butlast prev @ [(last prev)\<lparr>count := Some (n + 1)\<rparr>]"
      by (simp add: appendRealtimeEvent_same)
  }
next
  assume b: "prev = [] \<or> etype (event (last prev)) \<noteq> etype (event e)"
  then show "appendRealtimeEvent prev e = prev @ [e]"
    by (rule appendRealtimeEvent_new)
  from b show "length (appendRealtimeEvent prev e) = length prev + 1"
    by (simp add: appendRealtimeEvent_new)
next
  show "map (\<lambda>x. etype (event x)) (logEvents evs) = remdups_adj (map (\<lambda>x. etype (event x)) evs)"
    by (rule logEvents_types)
next
  assume "count e = None"
  then show "logEvents (replicate (Suc (Suc k)) e) = [e\<lparr>count := Some (Suc k)\<rparr>]"
    by (rule logEvents_run)
next
  assume "on_realtime_event fetch e st = (None, st')"
  then show "realtimeEvents st' = appendRealtimeEvent (realtimeEvents st) e"
    by (rule on_realtime_event_logs)
qed

text \<open>
  The theorem of C1 on an entry that stands for four events, on a fresh entry, on a new
  type, on the empty log, on five events of one type, and on a sequence of four.
\<close>

theorem event_log_coalesces_witness:
  "appendRealtimeEvent [server_event ''response.created'', counted_event]
       (server_event ''response.audio.delta'')
     = [server_event ''response.created'', (server_event ''response.audio.delta'')\<lparr>count := Some 4\<rparr>]
   \<and> appendRealtimeEvent [server_event ''response.audio.delta''] (server_event ''response.audio.delta'')
     = [(server_event ''response.audio.delta'')\<lparr>count := Some 1\<rparr>]
   \<and> appendRealtimeEvent [server_event ''response.audio.delta''] (server_event ''response.done'')
     = [server_event ''response.audio.delta'', server_event ''response.done'']
   \<and> appendRealtimeEvent [] (server_event ''response.done'') = [server_event ''response.done'']
   \<and> logEvents (replicate 5 (server_event ''response.audio.delta''))
     = [(server_event ''response.audio.delta'')\<lparr>count := Some 4\<rparr>]
   \<and> map (\<lambda>x. etype (event x))
        (logEvents [server_event ''a'', server_event ''a'', server_event ''b'', server_event ''a''])
     = [''a'', ''b'', ''a'']
   \<and> realtimeEvents (snd (on_realtime_event network_down
         (server_event ''response.done'') connected_page)) = [server_event ''response.done'']"
proof -
  let ?c = "server_event ''response.created''"
  let ?d = "server_event ''response.audio.delta''"
  let ?e = "server_event ''response.done''"
  let ?evs = "[server_event ''a'', server_event ''a'', server_event ''b'', server_event ''a'']"
  let ?f = network_down
  let ?st' = "snd (on_realtime_event ?f ?e connected_page)"
  have run: "on_realtime_event ?f ?e connected_page = (None, ?st')"
    by (simp add: on_realtime_event_def server_event_def Let_def)
  note t0 = event_log_coalesces_adjacent_same_type [of "[?c, counted_event]" ?d ?evs 3 ?f
      connected_page ?st']
  note t1 = event_log_coalesces_adjacent_same_type [of "[?d]" ?d ?evs 3 ?f connected_page ?st']
  note t2 = event_log_coalesces_adjacent_same_type [of "[?d]" ?e ?evs 3 ?f connected_page ?st']
  have "(5::nat) = Suc (Suc 3)"
    by simp
  then have five: "replicate 5 ?d = replicate (Suc (Suc 3)) ?d"
    by (rule arg_cong)
  from t0 have 0: "appendRealtimeEvent [?c, counted_event] ?d = [?c, ?d\<lparr>count := Some 4\<rparr>]"
    by (simp add: server_event_def counted_event_def)
  from t1 have 1: "appendRealtimeEvent [?d] ?d = [?d\<lparr>count := Some 1\<rparr>]"
    by (simp add: server_event_def)
  from t2 have 2: "appendRealtimeEvent [?d] ?e = [?d, ?e]"
    by (simp add: server_event_def)
  from event_log_coalesces_adjacent_same_type [of "[]" ?e ?evs 3 ?f connected_page ?st']
  have 6: "appendRealtimeEvent [] ?e = [?e]"
    by simp
  from t1 have 3: "logEvents (replicate 5 ?d) = [?d\<lparr>count := Some 4\<rparr>]"
    unfolding five by (simp add: server_event_def)
  from t2 have 4: "map (\<lambda>x. etype (event x)) (logEvents ?evs) = [''a'', ''b'', ''a'']"
    by (simp add: server_event_def)
  from t2 run have 5: "realtimeEvents ?st' = [?e]"
    by (simp add: appendRealtimeEvent_def connected_page_fields)
  from 0 1 2 3 4 5 6 show ?thesis by simp
qed

subsection \<open>Memory tool\<close>

text \<open>
  Claim C9. The memory tool binds the key to the value and leaves the binding of every
  other key, and every other part of the page state, as it was; it acknowledges with
  \<^verbatim>\<open>{ ok: true }\<close> whether or not the key was bound before.
\<close>

theorem set_memory_binds_key_only:
  "memoryKv (snd (set_memory_tool key val st)) key = Some val
   \<and> (\<forall>k. k \<noteq> key \<longrightarrow> memoryKv (snd (set_memory_tool key val st)) k = memoryKv st k)
   \<and> fst (set_memory_tool key val st) = \<lparr>ok = True\<rparr>
   \<and> snd (set_memory_tool key val st) = st\<lparr>memoryKv := (memoryKv st)(key \<mapsto> val)\<rparr>"
  by (simp add: set_memory_tool_def set_memory_def)

text \<open>The theorem of C9 when the key is overwritten and another key is present.\<close>

theorem set_memory_witness:
  "memoryKv (snd (set_memory_tool ''favorite_color'' ''blue''
       (initial_page\<lparr>memoryKv := [''favorite_color'' \<mapsto> ''red'', ''name'' \<mapsto> ''Ada'']\<rparr>)))
     ''favorite_color'' = Some ''blue''
   \<and> memoryKv (snd (set_memory_tool ''favorite_color'' ''blue''
       (initial_page\<lparr>memoryKv := [''favorite_color'' \<mapsto> ''red'', ''name'' \<mapsto> ''Ada'']\<rparr>)))
     ''name'' = Some ''Ada''
   \<and> ok (fst (set_memory_tool ''favorite_color'' ''blue''
       (initial_page\<lparr>memoryKv := [''favorite_color'' \<mapsto> ''red'', ''name'' \<mapsto> ''Ada'']\<rparr>)))"
proof -
  let ?st = "initial_page\<lparr>memoryKv := [''favorite_color'' \<mapsto> ''red'', ''name'' \<mapsto> ''Ada'']\<rparr>"
  note t = set_memory_binds_key_only [of "''favorite_color''" "''blue''" ?st]
  from t have "memoryKv (snd (set_memory_tool ''favorite_color'' ''blue'' ?st)) ''favorite_color''
      = Some ''blue''"
    by blast
  moreover from t have "memoryKv (snd (set_memory_tool ''favorite_color'' ''blue'' ?st)) ''name''
      = memoryKv ?st ''name''"
    by simp
  moreover from t have "ok (fst (set_memory_tool ''favorite_color'' ''blue'' ?st))"
    by simp
  ultimately show ?thesis by simp
qed

subsection \<open>Blank transcripts\<close>

text \<open>
  Claim C10. For a transcript that is empty or consists of whitespace only,
  \<^verbatim>\<open>injectContext\<close> leaves the page state exactly as it was: no request to the retrieval
  endpoint, no user message, no response creation, no change of the avatar state or of
  its pending timer. With a client present it returns normally.
\<close>

theorem blank_transcript_injects_nothing:
  assumes "\<forall>c \<in> set tr. isWhiteSpace c"
  shows "snd (injectContext fetch (Some tr) st) = st
       \<and> (clientRef st \<noteq> None \<longrightarrow> fst (injectContext fetch (Some tr) st) = None)"
proof -
  from assms have "trim tr = []" by (rule trim_blank)
  then show ?thesis
    by (simp add: injectContext_def split: option.split)
qed

text \<open>The theorem of C10 on a transcript of four whitespace characters and on the empty one.\<close>

theorem blank_transcript_witness:
  "injectContext context_found (Some [0x20, 0x9, 0xA, 0x3000]) connected_page
     = (None, connected_page)
   \<and> injectContext context_found (Some []) connected_page = (None, connected_page)"
proof -
  let ?f = context_found
  have ws: "\<forall>c \<in> set [0x20, 0x9, 0xA, 0x3000 :: 16 word]. isWhiteSpace c"
    by (simp add: isWhiteSpace_def)
  have em: "\<forall>c \<in> set ([] :: jsstring). isWhiteSpace c"
    by simp
  have cl: "clientRef connected_page \<noteq> None"
    by (simp add: connected_page_def relay_page_def init_client_def)
  from blank_transcript_injects_nothing [OF ws, of ?f connected_page] cl
  have "injectContext ?f (Some [0x20, 0x9, 0xA, 0x3000]) connected_page = (None, connected_page)"
    by (simp add: prod_eq_iff)
  moreover from blank_transcript_injects_nothing [OF em, of ?f connected_page] cl
  have "injectContext ?f (Some []) connected_page = (None, connected_page)"
    by (simp add: prod_eq_iff)
  ultimately show ?thesis by simp
qed

text \<open>Conversely, any other transcript is looked up, trimmed and encoded, or raises a URIError.\<close>

lemma nonblank_transcript_queries:
  assumes "clientRef st = Some c" and "\<not> (\<forall>ch \<in> set tr. isWhiteSpace ch)"
    and "encodeURIComponent (trim tr) = Inr q"
  shows "\<exists>rest. calls (snd (injectContext fetch (Some tr) st)) =
           calls st @ Fetch_context (''/api/context?query='' @ q) # rest"
proof -
  from assms(2) have "trim tr \<noteq> []" by (rule trim_not_blank)
  with assms(1,3) show ?thesis
    by (simp add: injectContext_def call_def Let_def setAvatarStateSafely_frame
          split: option.split promise.split parsed.split)
qed

lemma unpaired_surrogate_raises_before_fetch:
  assumes "clientRef st = Some c" and "trim tr \<noteq> []"
    and "encodeURIComponent (trim tr) = Inl err"
  shows "injectContext fetch (Some tr) st = (Some err, st)"
  using assms by (simp add: injectContext_def)


subsection \<open>Response completed\<close>

text \<open>
  Claim C3. The handler is written to schedule the transition to idle, 300 ms later, on
  a \<^verbatim>\<open>response.completed\<close> event. The branch that does so comes after the branch for
  types starting with \<^verbatim>\<open>response.\<close>, which this type matches: the handler sets
  the avatar to talk at once and schedules nothing.
\<close>

theorem response_completed_sets_talk:
  "on_realtime_event network_down (server_event ''response.completed'') connected_page
     = (None, connected_page\<lparr>avatarState := talk,
                             realtimeEvents := [server_event ''response.completed'']\<rparr>)
   \<and> timeouts (snd (on_realtime_event network_down
        (server_event ''response.completed'') connected_page)) = []"
  by (simp add: on_realtime_event_def avatar_for_event_def server_event_def startsWith_def
        setAvatarStateSafely_def appendRealtimeEvent_def connected_page_def relay_page_def
        init_client_def initial_page_def)

text \<open>The same for every event of that type and every state.\<close>

lemma response_completed_never_schedules:
  assumes "etype (event e) = ''response.completed''"
  shows "avatar_for_event (etype (event e)) st = setAvatarStateSafely talk 0 st"
  using assms by (simp add: avatar_for_event_def startsWith_def)

subsection \<open>Interruption\<close>

lemma interrupted_calls:
  "calls (on_conversation_interrupted st) =
     calls st @ Player_interrupt #
       (case wavStreamPlayer st of
          None \<Rightarrow> []
        | Some r \<Rightarrow> (case trackId r of
                       None \<Rightarrow> []
                     | Some tid \<Rightarrow> if tid \<noteq> [] then [Client_cancelResponse tid (offset r)] else []))"
  by (simp add: on_conversation_interrupted_def interrupt_def call_def Let_def
        setAvatarStateSafely_frame split: option.split)

lemma startRecording_calls:
  assumes "clientRef st = Some c"
  shows "calls (snd (startRecording st)) =
     calls st @ Player_interrupt #
       (case wavStreamPlayer st of
          None \<Rightarrow> []
        | Some r \<Rightarrow> (case trackId r of
                       None \<Rightarrow> []
                     | Some tid \<Rightarrow> if tid \<noteq> [] then [Client_cancelResponse tid (offset r)] else []))
       @ [Recorder_record]"
  using assms
  by (simp add: startRecording_def interrupt_def call_def recorder_record_def Let_def
        setAvatarStateSafely_frame split: option.split)

lemma interrupted_avatar:
  "avatarState (on_conversation_interrupted st) = idle"
  by (simp add: on_conversation_interrupted_def interrupt_def Let_def setAvatarStateSafely_now
        split: prod.split)

lemma interrupted_player:
  "wavStreamPlayer (on_conversation_interrupted st) =
     map_option (\<lambda>r. r\<lparr>trackId := None\<rparr>) (wavStreamPlayer st)"
  by (simp add: on_conversation_interrupted_def interrupt_def call_def Let_def
        setAvatarStateSafely_frame split: option.split)

text \<open>
  Claim C6. On an interruption while a track is playing, the first call is the player's
  interrupt, the one call that follows is a cancellation with the track id and sample
  offset that the interrupt returned, and the avatar is idle afterwards; the player has
  no track left. When the interrupt returns no result or no track id, the interrupt is
  the only call. Starting a recording interrupts in the same way before it records.
\<close>

theorem interrupted_cancels_the_playing_track:
  "(wavStreamPlayer st = Some r \<and> trackId r = Some tid \<and> tid \<noteq> [] \<longrightarrow>
      calls (on_conversation_interrupted st) =
        calls st @ [Player_interrupt, Client_cancelResponse tid (offset r)] \<and>
      wavStreamPlayer (on_conversation_interrupted st) = Some (r\<lparr>trackId := None\<rparr>) \<and>
      (clientRef st = Some c \<longrightarrow>
         calls (snd (startRecording st)) =
           calls st @ [Player_interrupt, Client_cancelResponse tid (offset r), Recorder_record]))
   \<and> (wavStreamPlayer st = None \<or> (wavStreamPlayer st = Some r \<and> trackId r = None) \<longrightarrow>
      calls (on_conversation_interrupted st) = calls st @ [Player_interrupt] \<and>
      (clientRef st = Some c \<longrightarrow>
         calls (snd (startRecording st)) = calls st @ [Player_interrupt, Recorder_record]))
   \<and> avatarState (on_conversation_interrupted st) = idle"
  by (auto simp: interrupted_calls startRecording_calls interrupted_avatar interrupted_player)

text \<open>The theorem of C6 while \<^verbatim>\<open>item_7\<close> is playing, and while nothing is.\<close>

theorem interrupted_witness:
  "calls (on_conversation_interrupted playing_page) =
     [Player_interrupt, Client_cancelResponse ''item_7'' 4800]
   \<and> count_list (calls (on_conversation_interrupted playing_page))
        (Client_cancelResponse ''item_7'' 4800) = 1
   \<and> avatarState (on_conversation_interrupted playing_page) = idle
   \<and> calls (on_conversation_interrupted connected_page) = [Player_interrupt]"
proof -
  let ?r = "\<lparr>trackId = Some ''item_7'', offset = 4800\<rparr>"
  have p: "wavStreamPlayer playing_page = Some ?r" "calls playing_page = []"
    by (simp_all add: playing_page_def connected_page_fields)
  have q: "wavStreamPlayer connected_page = None" "calls connected_page = []"
    by (simp_all add: connected_page_fields)
  from interrupted_cancels_the_playing_track [of playing_page ?r "''item_7''" undefined] p
  have 1: "calls (on_conversation_interrupted playing_page) =
     [Player_interrupt, Client_cancelResponse ''item_7'' 4800]"
    and 2: "avatarState (on_conversation_interrupted playing_page) = idle"
    by simp_all
  from interrupted_cancels_the_playing_track [of connected_page ?r "''item_7''" undefined] q
  have 3: "calls (on_conversation_interrupted connected_page) = [Player_interrupt]"
    by simp
  from 1 2 3 show ?thesis by simp
qed

text \<open>An empty track id fails the truthiness test like an absent one.\<close>

lemma interrupted_empty_track_id:
  assumes "wavStreamPlayer st = Some r" and "trackId r = Some []"
  shows "calls (on_conversation_interrupted st) = calls st @ [Player_interrupt]"
  using assms by (simp add: interrupted_calls)

subsection \<open>Releasing push to talk\<close>

lemma stopRecording_result:
  assumes "clientRef st = Some c"
  shows "fst (stopRecording st) = None"
    and "calls (snd (stopRecording st)) =
           calls st @ Recorder_pause #
             (if inputAudioBuffer c \<noteq> []
              then [Realtime_send ''input_audio_buffer.commit'',
                    Conversation_queueInputAudio (inputAudioBuffer c)]
              else [])"
    and "clientRef (snd (stopRecording st)) = Some (c\<lparr>inputAudioBuffer := []\<rparr>)"
    and "wavRecorder (snd (stopRecording st)) \<noteq> recording"
    and "avatarState (snd (stopRecording st)) = think"
    and "isRecording (snd (stopRecording st)) = False"
  using assms
  by (simp_all add: stopRecording_def recorder_pause_def call_def byteLength_def Let_def
        setAvatarStateSafely_frame setAvatarStateSafely_now)

text \<open>
  Claim C7, amended. With a client present, \<^verbatim>\<open>stopRecording\<close> pauses the recorder
  first; if the input audio buffer is not empty it then sends exactly one
  \<^verbatim>\<open>input_audio_buffer.commit\<close> and queues the buffered audio, and if the buffer is
  empty it sends no commit. In both cases the buffer is empty afterwards, capture is not
  running, the avatar is think and the recording flag is off.
\<close>

theorem stopRecording_commits_buffered_audio:
  "clientRef st = Some c \<longrightarrow>
     fst (stopRecording st) = None
     \<and> calls (snd (stopRecording st)) =
         calls st @ Recorder_pause #
           (if inputAudioBuffer c \<noteq> []
            then [Realtime_send ''input_audio_buffer.commit'',
                  Conversation_queueInputAudio (inputAudioBuffer c)]
            else [])
     \<and> clientRef (snd (stopRecording st)) = Some (c\<lparr>inputAudioBuffer := []\<rparr>)
     \<and> wavRecorder (snd (stopRecording st)) \<noteq> recording
     \<and> avatarState (snd (stopRecording st)) = think
     \<and> isRecording (snd (stopRecording st)) = False"
  by (simp add: stopRecording_result)

text \<open>
  Claim C7 as stated (every call flushes as exactly one commit) fails in manual mode
  when nothing is buffered: the only call is the pause.
\<close>

theorem stopRecording_empty_buffer_sends_no_commit:
  "canPushToTalk listening_page
   \<and> wavRecorder listening_page = recording
   \<and> map_option inputAudioBuffer (clientRef listening_page) = Some []
   \<and> fst (stopRecording listening_page) = None
   \<and> calls (snd (stopRecording listening_page)) = [Recorder_pause]
   \<and> count_list (calls (snd (stopRecording listening_page)))
        (Realtime_send ''input_audio_buffer.commit'') = 0"
  by (simp add: stopRecording_def recorder_pause_def call_def byteLength_def Let_def
        setAvatarStateSafely_frame listening_page_def clientRef_connected_page
        connected_page_fields)

text \<open>The theorem of C7 with three samples buffered.\<close>

theorem stopRecording_witness:
  "fst (stopRecording recording_page) = None
   \<and> calls (snd (stopRecording recording_page)) =
       [Recorder_pause, Realtime_send ''input_audio_buffer.commit'',
        Conversation_queueInputAudio [12, 65535, 7]]
   \<and> count_list (calls (snd (stopRecording recording_page)))
        (Realtime_send ''input_audio_buffer.commit'') = 1
   \<and> map_option inputAudioBuffer (clientRef (snd (stopRecording recording_page))) = Some []
   \<and> wavRecorder (snd (stopRecording recording_page)) \<noteq> recording
   \<and> avatarState (snd (stopRecording recording_page)) = think"
proof -
  let ?c = "\<lparr>options = \<lparr>url = Some ''http://localhost:8081'', apiKey = None,
                        dangerouslyAllowAPIKeyInBrowser = None\<rparr>,
           inputAudioBuffer = [12, 65535, 7], turn_detection = None, connected = True\<rparr>"
  have rc: "clientRef recording_page = Some ?c" "calls recording_page = []"
    by (simp_all add: recording_page_def clientRef_connected_page connected_page_fields)
  from stopRecording_commits_buffered_audio [of recording_page ?c] rc
  show ?thesis by simp
qed

subsection \<open>Switching the turn-detection mode\<close>

lemma changeTurnEndType_none:
  assumes "clientRef st = Some c"
  shows "fst (changeTurnEndType ''none'' st) = None"
    and "calls (snd (changeTurnEndType ''none'' st)) =
           calls st @ (if wavRecorder st = recording then [Recorder_pause] else [])
             @ [Client_updateSession_turn_detection None]"
    and "wavRecorder (snd (changeTurnEndType ''none'' st)) =
           (if wavRecorder st = recording then paused else wavRecorder st)"
    and "clientRef (snd (changeTurnEndType ''none'' st)) = Some (c\<lparr>turn_detection := None\<rparr>)"
    and "canPushToTalk (snd (changeTurnEndType ''none'' st)) = True"
  using assms
  by (simp_all add: changeTurnEndType_def recorder_pause_def call_def Let_def)

lemma changeTurnEndType_server_vad:
  assumes "clientRef st = Some c"
  shows "fst (changeTurnEndType ''server_vad'' st) = None"
    and "calls (snd (changeTurnEndType ''server_vad'' st)) =
           calls st @ Client_updateSession_turn_detection (Some ''server_vad'') #
             (if connected c then [Recorder_record] else [])"
    and "wavRecorder (snd (changeTurnEndType ''server_vad'' st)) =
           (if connected c \<and> wavRecorder st \<noteq> ended then recording else wavRecorder st)"
    and "clientRef (snd (changeTurnEndType ''server_vad'' st)) =
           Some (c\<lparr>turn_detection := Some ''server_vad''\<rparr>)"
    and "canPushToTalk (snd (changeTurnEndType ''server_vad'' st)) = False"
  using assms
  by (auto simp: changeTurnEndType_def recorder_record_def call_def Let_def)

lemma round_trip_recorder:
  assumes "clientRef st = Some c"
  shows "wavRecorder (snd (changeTurnEndType ''none'' (snd (changeTurnEndType ''server_vad'' st))))
           = (if wavRecorder st = recording then paused else wavRecorder st)"
proof -
  let ?st1 = "snd (changeTurnEndType ''server_vad'' st)"
  have c1: "clientRef ?st1 = Some (c\<lparr>turn_detection := Some ''server_vad''\<rparr>)"
    using assms by (rule changeTurnEndType_server_vad)
  have "wavRecorder (snd (changeTurnEndType ''none'' ?st1)) =
          (if wavRecorder ?st1 = recording then paused else wavRecorder ?st1)"
    using c1 by (rule changeTurnEndType_none)
  also have "\<dots> = (if wavRecorder st = recording then paused else wavRecorder st)"
    using changeTurnEndType_server_vad(3) [OF assms]
    by (cases "wavRecorder st") auto
  finally show ?thesis .
qed

text \<open>
  Claim C4, amended. With a client present: a switch to manual pauses the recorder first
  if (and only if) it is recording, then applies \<^verbatim>\<open>turn_detection: null\<close>, and leaves
  capture not running with push to talk enabled; a switch to automatic applies
  \<^verbatim>\<open>turn_detection: server_vad\<close> first, without a pause before it, then starts the
  recorder if and only if the client is connected, and disables push to talk. From a
  paused recorder, the switch to automatic leaves it recording when the client is
  connected, and the round trip manual, automatic, manual ends with it paused again.
\<close>

theorem mode_switch_order:
  "clientRef st = Some c \<longrightarrow>
     calls (snd (changeTurnEndType ''none'' st)) =
       calls st @ (if wavRecorder st = recording then [Recorder_pause] else [])
         @ [Client_updateSession_turn_detection None]
     \<and> wavRecorder (snd (changeTurnEndType ''none'' st)) \<noteq> recording
     \<and> canPushToTalk (snd (changeTurnEndType ''none'' st))
     \<and> calls (snd (changeTurnEndType ''server_vad'' st)) =
         calls st @ Client_updateSession_turn_detection (Some ''server_vad'') #
           (if connected c then [Recorder_record] else [])
     \<and> \<not> canPushToTalk (snd (changeTurnEndType ''server_vad'' st))
     \<and> (wavRecorder st = paused \<longrightarrow>
          wavRecorder (snd (changeTurnEndType ''server_vad'' st)) =
            (if connected c then recording else paused) \<and>
          wavRecorder (snd (changeTurnEndType ''none'' (snd (changeTurnEndType ''server_vad'' st))))
            = paused)"
  by (simp add: changeTurnEndType_none changeTurnEndType_server_vad round_trip_recorder)

text \<open>
  Claim C4 as stated (every mode switch pauses active capture first) fails for the
  switch to automatic while the recorder is recording: no pause is among the calls, and
  the new configuration is applied while capture runs.
\<close>

theorem mode_switch_to_automatic_does_not_pause:
  "wavRecorder recording_page = recording
   \<and> fst (changeTurnEndType ''server_vad'' recording_page) = None
   \<and> calls (snd (changeTurnEndType ''server_vad'' recording_page)) =
       [Client_updateSession_turn_detection (Some ''server_vad''), Recorder_record]
   \<and> count_list (calls (snd (changeTurnEndType ''server_vad'' recording_page))) Recorder_pause = 0"
  by (simp add: changeTurnEndType_def recorder_record_def call_def Let_def recording_page_def
        clientRef_connected_page connected_page_fields)

text \<open>The theorem of C4 while push to talk is held, and on a round trip from a paused recorder.\<close>

theorem mode_switch_witness:
  "calls (snd (changeTurnEndType ''none'' recording_page)) =
     [Recorder_pause, Client_updateSession_turn_detection None]
   \<and> wavRecorder (snd (changeTurnEndType ''none'' recording_page)) = paused
   \<and> calls (snd (changeTurnEndType ''server_vad'' connected_page)) =
       [Client_updateSession_turn_detection (Some ''server_vad''), Recorder_record]
   \<and> wavRecorder (snd (changeTurnEndType ''server_vad'' connected_page)) = recording
   \<and> wavRecorder (snd (changeTurnEndType ''none''
        (snd (changeTurnEndType ''server_vad'' connected_page)))) = paused"
proof -
  let ?c = "\<lparr>options = \<lparr>url = Some ''http://localhost:8081'', apiKey = None,
                        dangerouslyAllowAPIKeyInBrowser = None\<rparr>,
           inputAudioBuffer = [], turn_detection = None, connected = True\<rparr>"
  let ?b = "?c\<lparr>inputAudioBuffer := [12, 65535, 7]\<rparr>"
  have rc: "clientRef recording_page = Some ?b" "calls recording_page = []"
    "wavRecorder recording_page = recording"
    by (simp_all add: recording_page_def clientRef_connected_page connected_page_fields)
  note r = mode_switch_order [of recording_page ?b]
  note k = mode_switch_order [of connected_page ?c]
  from r rc have 1: "calls (snd (changeTurnEndType ''none'' recording_page)) =
     [Recorder_pause, Client_updateSession_turn_detection None]"
    by simp
  have 2: "wavRecorder (snd (changeTurnEndType ''none'' recording_page)) = paused"
    using changeTurnEndType_none(3) [OF rc(1)] rc(3) by simp
  from k have 3: "calls (snd (changeTurnEndType ''server_vad'' connected_page)) =
       [Client_updateSession_turn_detection (Some ''server_vad''), Recorder_record]"
    by (simp add: clientRef_connected_page connected_page_fields)
  from k have 4: "wavRecorder (snd (changeTurnEndType ''server_vad'' connected_page)) = recording"
    by (simp add: clientRef_connected_page connected_page_fields)
  from k have 5: "wavRecorder (snd (changeTurnEndType ''none''
        (snd (changeTurnEndType ''server_vad'' connected_page)))) = paused"
    by (simp add: clientRef_connected_page connected_page_fields)
  from 1 2 3 4 5 show ?thesis by simp
qed

subsection \<open>Failure of the context lookup\<close>




lemma consume_resolved:
  assumes "handle net i st = (None, st1)"
  shows "consume net (i # rest) st = consume net rest st1"
  using assms by (simp split: prod.split)




text \<open>When the lookup succeeds the passage is sent, and in manual mode a response is requested.\<close>

lemma injectContext_success:
  assumes "clientRef st = Some c" and "trim tr \<noteq> []"
    and "encodeURIComponent (trim tr) = Inr q"
    and "fetch (''/api/context?query='' @ q) = fulfilled resp" and "response_ok resp"
    and "json resp = Json d"
  shows "fst (injectContext fetch (Some tr) st) = None"
    and "calls (snd (injectContext fetch (Some tr) st)) =
           calls st @ [Fetch_context (''/api/context?query='' @ q),
                       Client_sendUserMessageContent (message d)]
             @ (if turn_detection c = None then [Client_createResponse] else [])"
  using assms by (simp_all add: injectContext_def call_def Let_def setAvatarStateSafely_frame)

subsection \<open>Weather tool\<close>

lemma get_weather_frame:
  "coords (snd (get_weather fetch la lo loc st)) =
     Some \<lparr>lat = la, lng = lo, location = Some loc, temperature = None, wind_speed = None\<rparr>"
  "calls (snd (get_weather fetch la lo loc st)) = calls st @ [Fetch_forecast la lo]"
  "snd (get_weather fetch la lo loc st) =
     st\<lparr>marker := marker (snd (get_weather fetch la lo loc st)),
        coords := coords (snd (get_weather fetch la lo loc st)),
        calls := calls (snd (get_weather fetch la lo loc st))\<rparr>"
  by (simp_all add: get_weather_def call_def Let_def
        split: promise.split option.split parsed.split)

lemma get_weather_rejected_marker:
  assumes "fst (get_weather fetch la lo loc st) = Inl e"
  shows "marker (snd (get_weather fetch la lo loc st)) =
           Some \<lparr>lat = la, lng = lo, location = Some loc, temperature = None, wind_speed = None\<rparr>"
  using assms
  by (simp add: get_weather_def call_def Let_def
        split: promise.split_asm option.split_asm parsed.split_asm)

lemma on_tool_call_get_weather:
  "on_tool_call net (Call_get_weather la lo loc) st =
     call (Function_call_output
             (case fst (get_weather (fetch_forecast net) la lo loc st) of
                Inl e \<Rightarrow> Output_error e
              | Inr js \<Rightarrow> Output_forecast js))
       (snd (get_weather (fetch_forecast net) la lo loc st))"
  by (simp add: on_tool_call_def split: prod.split sum.split)

text \<open>
  Claim C8, amended. The handler first sets the marker and the map position to the
  requested coordinate and issues one request. When the request resolves with a JSON
  body that has \<^verbatim>\<open>current\<close> and \<^verbatim>\<open>current_units\<close>, the handler returns that body,
  which carries the numeric temperature and wind speed and their units, and the marker
  holds the coordinate with both readings, each a number with its unit. When the
  request is rejected the handler raises the network error; when it resolves with a
  body that is not JSON it raises a SyntaxError; when the body is \<^verbatim>\<open>null\<close> or lacks
  \<^verbatim>\<open>current\<close> or \<^verbatim>\<open>current_units\<close> it raises a TypeError. Whenever the handler
  raises, the marker is the coordinate without readings, the tool call yields a
  function-call output that carries the error, and the consumption of events goes on
  with the next event; the handler touches nothing but the marker, the map position and
  the one request.
\<close>

theorem get_weather_outcomes:
  "(fetch_forecast net la lo = fulfilled resp \<and> json resp = Json js \<and> current js = Some cur \<and>
    current_units js = Some un \<longrightarrow>
      fst (get_weather (fetch_forecast net) la lo loc st) = Inr js \<and>
      marker (snd (get_weather (fetch_forecast net) la lo loc st)) =
        Some \<lparr>lat = la, lng = lo, location = Some loc,
              temperature = Some \<lparr>reading_value = temperature_2m cur,
                                   units = temperature_2m_units un\<rparr>,
              wind_speed = Some \<lparr>reading_value = wind_speed_10m cur,
                                  units = wind_speed_10m_units un\<rparr>\<rparr> \<and>
      on_tool_call net (Call_get_weather la lo loc) st =
        call (Function_call_output (Output_forecast js))
          (snd (get_weather (fetch_forecast net) la lo loc st)))
   \<and> (fetch_forecast net la lo = rejected err \<longrightarrow>
      fst (get_weather (fetch_forecast net) la lo loc st) = Inl err)
   \<and> (fetch_forecast net la lo = fulfilled resp \<and> json resp = NotJson \<longrightarrow>
      fst (get_weather (fetch_forecast net) la lo loc st) = Inl SyntaxError)
   \<and> (fetch_forecast net la lo = fulfilled resp \<and>
       (json resp = JsonNull \<or>
        (json resp = Json js \<and> (current js = None \<or> current_units js = None))) \<longrightarrow>
      fst (get_weather (fetch_forecast net) la lo loc st) = Inl TypeError)
   \<and> (\<forall>e. fst (get_weather (fetch_forecast net) la lo loc st) = Inl e \<longrightarrow>
      marker (snd (get_weather (fetch_forecast net) la lo loc st)) =
        Some \<lparr>lat = la, lng = lo, location = Some loc, temperature = None, wind_speed = None\<rparr> \<and>
      on_tool_call net (Call_get_weather la lo loc) st =
        call (Function_call_output (Output_error e))
          (snd (get_weather (fetch_forecast net) la lo loc st)))
   \<and> coords (snd (get_weather (fetch_forecast net) la lo loc st)) =
        Some \<lparr>lat = la, lng = lo, location = Some loc, temperature = None, wind_speed = None\<rparr>
   \<and> calls (snd (get_weather (fetch_forecast net) la lo loc st)) = calls st @ [Fetch_forecast la lo]
   \<and> snd (get_weather (fetch_forecast net) la lo loc st) =
        st\<lparr>marker := marker (snd (get_weather (fetch_forecast net) la lo loc st)),
           coords := coords (snd (get_weather (fetch_forecast net) la lo loc st)),
           calls := calls (snd (get_weather (fetch_forecast net) la lo loc st))\<rparr>
   \<and> consume net (Tool (Call_get_weather la lo loc) # rest) st =
        consume net rest (on_tool_call net (Call_get_weather la lo loc) st)"
proof (intro conjI impI allI)
  let ?g = "get_weather (fetch_forecast net) la lo loc st"
  {
    assume a: "fetch_forecast net la lo = fulfilled resp \<and> json resp = Json js \<and>
      current js = Some cur \<and> current_units js = Some un"
    then show r: "fst ?g = Inr js"
      by (simp add: get_weather_def Let_def)
    from a show "marker (snd ?g) =
        Some \<lparr>lat = la, lng = lo, location = Some loc,
              temperature = Some \<lparr>reading_value = temperature_2m cur,
                                   units = temperature_2m_units un\<rparr>,
              wind_speed = Some \<lparr>reading_value = wind_speed_10m cur,
                                  units = wind_speed_10m_units un\<rparr>\<rparr>"
      by (simp add: get_weather_def call_def Let_def)
    from r show "on_tool_call net (Call_get_weather la lo loc) st =
        call (Function_call_output (Output_forecast js)) (snd ?g)"
      by (simp add: on_tool_call_get_weather)
  }
  {
    assume "fetch_forecast net la lo = rejected err"
    then show "fst ?g = Inl err"
      by (simp add: get_weather_def Let_def)
  }
  {
    assume "fetch_forecast net la lo = fulfilled resp \<and> json resp = NotJson"
    then show "fst ?g = Inl SyntaxError"
      by (simp add: get_weather_def Let_def)
  }
  {
    assume "fetch_forecast net la lo = fulfilled resp \<and>
       (json resp = JsonNull \<or>
        (json resp = Json js \<and> (current js = None \<or> current_units js = None)))"
    then show "fst ?g = Inl TypeError"
      by (auto simp: get_weather_def Let_def split: option.split)
  }
  {
    fix e assume e: "fst ?g = Inl e"
    then show "marker (snd ?g) =
        Some \<lparr>lat = la, lng = lo, location = Some loc, temperature = None, wind_speed = None\<rparr>"
      by (rule get_weather_rejected_marker)
    from e show "on_tool_call net (Call_get_weather la lo loc) st =
        call (Function_call_output (Output_error e)) (snd ?g)"
      by (simp add: on_tool_call_get_weather)
  }
  show "coords (snd ?g) =
        Some \<lparr>lat = la, lng = lo, location = Some loc, temperature = None, wind_speed = None\<rparr>"
    by (rule get_weather_frame)
  show "calls (snd ?g) = calls st @ [Fetch_forecast la lo]"
    by (rule get_weather_frame)
  show "snd ?g = st\<lparr>marker := marker (snd ?g), coords := coords (snd ?g), calls := calls (snd ?g)\<rparr>"
    by (rule get_weather_frame)
  have "handle net (Tool (Call_get_weather la lo loc)) st =
      (None, on_tool_call net (Call_get_weather la lo loc) st)"
    by (simp add: handle_def)
  then show "consume net (Tool (Call_get_weather la lo loc) # rest) st =
        consume net rest (on_tool_call net (Call_get_weather la lo loc) st)"
    by (rule consume_resolved)
qed

text \<open>
  Claim C8 as stated fails on a request that succeeds on the network but is refused by
  the service (status 400, a JSON body without readings): the handler returns no
  temperature and no wind speed, it raises a TypeError. And on a network failure the
  handler itself yields no function-call output: its own calls are the one request, and
  its promise is rejected.
\<close>

theorem get_weather_refused_request_raises:
  "fst (get_weather forecast_refused 1000 0 ''Nowhere'' connected_page) = Inl TypeError
   \<and> marker (snd (get_weather forecast_refused 1000 0 ''Nowhere'' connected_page)) =
       Some \<lparr>lat = 1000, lng = 0, location = Some ''Nowhere'', temperature = None,
             wind_speed = None\<rparr>
   \<and> fst (get_weather forecast_down 37.7749 (-122.4194) ''San Francisco'' connected_page)
       = Inl NetworkError
   \<and> calls (snd (get_weather forecast_down 37.7749 (-122.4194) ''San Francisco'' connected_page))
       = [Fetch_forecast 37.7749 (-122.4194)]"
  by (simp add: get_weather_def forecast_refused_def forecast_down_def call_def Let_def
        connected_page_fields)

text \<open>
  The theorem of C8 for San Francisco with the service up, with the network down and a
  later event, for a refused request and for a body that is not JSON.
\<close>

theorem get_weather_witness:
  "fst (get_weather forecast_up 37.7749 (-122.4194) ''San Francisco'' connected_page) = Inr forecast_sf
   \<and> marker (snd (get_weather forecast_up 37.7749 (-122.4194) ''San Francisco'' connected_page)) =
       Some \<lparr>lat = 37.7749, lng = -122.4194, location = Some ''San Francisco'',
             temperature = Some \<lparr>reading_value = 15.3, units = ''C''\<rparr>,
             wind_speed = Some \<lparr>reading_value = 12.6, units = ''km/h''\<rparr>\<rparr>
   \<and> calls (on_tool_call net_down (Call_get_weather 37.7749 (-122.4194) ''San Francisco'')
        connected_page) =
       [Fetch_forecast 37.7749 (-122.4194), Function_call_output (Output_error NetworkError)]
   \<and> marker (on_tool_call net_down (Call_get_weather 37.7749 (-122.4194) ''San Francisco'')
        connected_page) =
       Some \<lparr>lat = 37.7749, lng = -122.4194, location = Some ''San Francisco'',
             temperature = None, wind_speed = None\<rparr>
   \<and> consume net_down [Tool (Call_get_weather 37.7749 (-122.4194) ''San Francisco''),
                       Realtime (server_event ''response.done'')] connected_page =
       ([], (on_tool_call net_down (Call_get_weather 37.7749 (-122.4194) ''San Francisco'')
               connected_page)
             \<lparr>avatarState := talk, realtimeEvents := [server_event ''response.done'']\<rparr>)
   \<and> calls (on_tool_call net_unavailable (Call_get_weather 1000 0 ''Nowhere'') connected_page) =
       [Fetch_forecast 1000 0, Function_call_output (Output_error TypeError)]
   \<and> fst (get_weather forecast_garbled 37.7749 (-122.4194) ''San Francisco'' connected_page)
       = Inl SyntaxError"
proof -
  let ?resp = "\<lparr>response_ok = True, status = 200, json = Json forecast_sf\<rparr>"
  let ?bad = "\<lparr>response_ok = False, status = 400,
               json = Json \<lparr>current = None, current_units = None\<rparr>\<rparr>"
  let ?cur = "\<lparr>temperature_2m = 15.3, wind_speed_10m = 12.6\<rparr>"
  let ?un = "\<lparr>temperature_2m_units = ''C'', wind_speed_10m_units = ''km/h''\<rparr>"
  let ?later = "[Realtime (server_event ''response.done'')]"
  let ?sf = "Call_get_weather 37.7749 (-122.4194) ''San Francisco''"
  note up = get_weather_outcomes [of net_up "37.7749" "-122.4194" ?resp forecast_sf ?cur ?un
      "''San Francisco''" connected_page NetworkError ?later]
  note down = get_weather_outcomes [of net_down "37.7749" "-122.4194" ?resp forecast_sf ?cur ?un
      "''San Francisco''" connected_page NetworkError ?later]
  note refused = get_weather_outcomes [of net_unavailable 1000 0 ?bad
      "\<lparr>current = None, current_units = None\<rparr>" ?cur ?un "''Nowhere''" connected_page
      NetworkError ?later]
  from up have 1:
    "fst (get_weather forecast_up 37.7749 (-122.4194) ''San Francisco'' connected_page) = Inr forecast_sf
     \<and> marker (snd (get_weather forecast_up 37.7749 (-122.4194) ''San Francisco'' connected_page)) =
       Some \<lparr>lat = 37.7749, lng = -122.4194, location = Some ''San Francisco'',
             temperature = Some \<lparr>reading_value = 15.3, units = ''C''\<rparr>,
             wind_speed = Some \<lparr>reading_value = 12.6, units = ''km/h''\<rparr>\<rparr>"
    by (simp add: net_fields forecast_up_def forecast_sf_def)
  from down have rej:
    "fst (get_weather forecast_down 37.7749 (-122.4194) ''San Francisco'' connected_page)
       = Inl NetworkError"
    by (simp add: net_fields forecast_down_def)
  from down rej have tool: "on_tool_call net_down ?sf connected_page =
      call (Function_call_output (Output_error NetworkError))
        (snd (get_weather forecast_down 37.7749 (-122.4194) ''San Francisco'' connected_page))"
    and mk: "marker (snd (get_weather forecast_down 37.7749 (-122.4194) ''San Francisco''
        connected_page)) =
       Some \<lparr>lat = 37.7749, lng = -122.4194, location = Some ''San Francisco'',
             temperature = None, wind_speed = None\<rparr>"
    and cl: "calls (snd (get_weather forecast_down 37.7749 (-122.4194) ''San Francisco''
        connected_page)) = [Fetch_forecast 37.7749 (-122.4194)]"
    by (simp_all add: net_fields connected_page_fields)
  from tool cl have 2: "calls (on_tool_call net_down ?sf connected_page) =
       [Fetch_forecast 37.7749 (-122.4194), Function_call_output (Output_error NetworkError)]"
    by (simp add: call_def)
  from tool mk have 3: "marker (on_tool_call net_down ?sf connected_page) =
       Some \<lparr>lat = 37.7749, lng = -122.4194, location = Some ''San Francisco'',
             temperature = None, wind_speed = None\<rparr>"
    by (simp add: call_def)
  have later: "consume net_down ?later (on_tool_call net_down ?sf connected_page) =
       ([], (on_tool_call net_down ?sf connected_page)
             \<lparr>avatarState := talk, realtimeEvents := [server_event ''response.done'']\<rparr>)"
    by (simp add: handle_def on_realtime_event_def avatar_for_event_def startsWith_def
          server_event_def setAvatarStateSafely_def appendRealtimeEvent_def
          on_tool_call_def get_weather_def net_fields forecast_down_def call_def Let_def
          connected_page_fields)
  from down later have 4: "consume net_down [Tool ?sf, Realtime (server_event ''response.done'')]
        connected_page =
       ([], (on_tool_call net_down ?sf connected_page)
             \<lparr>avatarState := talk, realtimeEvents := [server_event ''response.done'']\<rparr>)"
    by (simp del: consume.simps)
  note garbled = get_weather_outcomes [of net_garbled "37.7749" "-122.4194"
      "\<lparr>response_ok = True, status = 200, json = NotJson\<rparr>" forecast_sf ?cur ?un
      "''San Francisco''" connected_page NetworkError ?later]
  from garbled have 6:
    "fst (get_weather forecast_garbled 37.7749 (-122.4194) ''San Francisco'' connected_page)
       = Inl SyntaxError"
    by (simp add: net_fields forecast_garbled_def)
  from refused have bad:
    "fst (get_weather forecast_refused 1000 0 ''Nowhere'' connected_page) = Inl TypeError"
    by (simp add: net_fields forecast_refused_def)
  from refused bad have 5:
    "calls (on_tool_call net_unavailable (Call_get_weather 1000 0 ''Nowhere'') connected_page) =
       [Fetch_forecast 1000 0, Function_call_output (Output_error TypeError)]"
    by (simp add: net_fields call_def connected_page_fields)
  from 1 2 3 4 5 6 show ?thesis by (simp del: consume.simps)
qed

subsection \<open>Relay mode\<close>

lemma client_leg_step:
  "client_leg (relay_step relay version i) =
     (case i of From_upstream f \<Rightarrow> [To_client f] | _ \<Rightarrow> [])"
  by (simp add: client_leg_def relay_step_def split: relay_input.split)

lemma client_leg_run:
  "client_leg (relay_run relay version inputs) =
     concat (map (\<lambda>i. case i of From_upstream f \<Rightarrow> [To_client f] | _ \<Rightarrow> []) inputs)"
proof (induction inputs)
  case Nil
  show ?case by (simp add: client_leg_def relay_run_def)
next
  case (Cons i inputs)
  have "client_leg (relay_run relay version (i # inputs)) =
          client_leg (relay_step relay version i) @ client_leg (relay_run relay version inputs)"
    by (simp add: client_leg_def relay_run_def)
  then show ?case
    using Cons.IH by (simp add: client_leg_step)
qed

lemma direct_mode_carries_the_key:
  "client_options_for [] key =
     \<lparr>url = None, apiKey = Some key, dangerouslyAllowAPIKeyInBrowser = Some True\<rparr>"
  by (simp add: client_options_for_def)

text \<open>
  Claim C2. When a relay URL is configured, the client is constructed with the URL only:
  its options hold no API key, and the page state after construction is the same
  whatever key the page holds, so nothing the client sends can depend on it; the page
  does not ask the user for a key and stores none. The relay
  process is started with the credential of its own environment, attaches exactly that
  credential when it opens the upstream connection, and what it writes on the client
  leg is the same whatever the credential is.
\<close>

theorem relay_mode_keeps_the_credential_off_the_client_leg:
  "(LOCAL_RELAY_SERVER_URL env \<noteq> [] \<longrightarrow>
      clientRef (init_client (LOCAL_RELAY_SERVER_URL env) key st) =
        Some (new_RealtimeClient
          \<lparr>url = Some (LOCAL_RELAY_SERVER_URL env), apiKey = None,
           dangerouslyAllowAPIKeyInBrowser = None\<rparr>)
      \<and> init_client (LOCAL_RELAY_SERVER_URL env) key st =
          init_client (LOCAL_RELAY_SERVER_URL env) key' st
      \<and> \<not> prompted (init_apiKey (LOCAL_RELAY_SERVER_URL env) item answer)
      \<and> stored_item (init_apiKey (LOCAL_RELAY_SERVER_URL env) item answer) = item)
   \<and> relay_apiKey (fst (relay_main secret port)) = secret
   \<and> relay_step (fst (relay_main secret port)) version Accept = [Open_upstream secret version]
   \<and> client_leg (relay_run (fst (relay_main secret port)) version inputs) =
       client_leg (relay_run (fst (relay_main secret' port)) version inputs)"
  by (simp add: init_client_def client_options_for_def relay_main_def relay_step_def
        client_leg_run init_apiKey_def)

text \<open>The theorem of C2 for a local relay, a key stored in the page, and three relay inputs.\<close>

theorem relay_mode_witness:
  "clientRef (init_client (LOCAL_RELAY_SERVER_URL (Some ''http://localhost:8081'')) ''sk-browser''
       initial_page) =
     Some \<lparr>options = \<lparr>url = Some ''http://localhost:8081'', apiKey = None,
                        dangerouslyAllowAPIKeyInBrowser = None\<rparr>,
           inputAudioBuffer = [], turn_detection = None, connected = False\<rparr>
   \<and> init_apiKey (LOCAL_RELAY_SERVER_URL (Some ''http://localhost:8081'')) None (Some ''sk-typed'')
       = \<lparr>apiKey_state = [], stored_item = None, prompted = False\<rparr>
   \<and> relay_run (fst (relay_main (Some ''sk-relay'') None)) ''v1''
        [Accept, From_client [1, 2], From_upstream [3]] =
       [Open_upstream (Some ''sk-relay'') ''v1'', To_upstream [1, 2], To_client [3]]
   \<and> client_leg (relay_run (fst (relay_main (Some ''sk-relay'') None)) ''v1''
        [Accept, From_client [1, 2], From_upstream [3]]) = [To_client [3]]"
proof -
  let ?env = "Some ''http://localhost:8081''"
  let ?in = "[Accept, From_client [1, 2], From_upstream [3]]"
  note t = relay_mode_keeps_the_credential_off_the_client_leg
    [of ?env "''sk-browser''" initial_page "[]" None "Some ''sk-typed''" "Some ''sk-relay''"
      None "''v1''" ?in None]
  have u: "LOCAL_RELAY_SERVER_URL ?env = ''http://localhost:8081''"
    by (simp add: LOCAL_RELAY_SERVER_URL_def)
  have ne: "LOCAL_RELAY_SERVER_URL ?env \<noteq> []"
    by (simp add: u)
  from t [THEN conjunct1, rule_format, OF ne, THEN conjunct1] have 1:
    "clientRef (init_client (LOCAL_RELAY_SERVER_URL ?env) ''sk-browser'' initial_page) =
     Some \<lparr>options = \<lparr>url = Some ''http://localhost:8081'', apiKey = None,
                        dangerouslyAllowAPIKeyInBrowser = None\<rparr>,
           inputAudioBuffer = [], turn_detection = None, connected = False\<rparr>"
    by (simp add: u new_RealtimeClient_def)
  have 2: "init_apiKey (LOCAL_RELAY_SERVER_URL ?env) None (Some ''sk-typed'')
       = \<lparr>apiKey_state = [], stored_item = None, prompted = False\<rparr>"
    by (simp add: u init_apiKey_def)
  from t have 3: "relay_run (fst (relay_main (Some ''sk-relay'') None)) ''v1'' ?in =
       [Open_upstream (Some ''sk-relay'') ''v1'', To_upstream [1, 2], To_client [3]]"
    by (simp add: relay_run_def relay_step_def)
  from t have 4: "client_leg (relay_run (fst (relay_main (Some ''sk-relay'') None)) ''v1'' ?in)
      = [To_client [3]]"
    by (simp add: client_leg_run)
  from 1 2 3 4 show ?thesis by simp
qed

end
